theory Spec2Isabelle
  imports Complex_Main "HOL-Library.Multiset"
begin

section \<open>Python values\<close>

text \<open>
  Exceptions are values: every function of the source that can raise returns
  \<open>error + 'a\<close>, with \<open>Inl\<close> for the exception.
\<close>

datatype error =
    NameError string
  | AttributeError string
  | KeyError string
  | TypeError
  | ValueError
  | IndexError
  | RuntimeError

definition ebind :: "error + 'a \<Rightarrow> ('a \<Rightarrow> error + 'b) \<Rightarrow> error + 'b" where
  "ebind m f = (case m of Inl e \<Rightarrow> Inl e | Inr v \<Rightarrow> f v)"

text \<open>
  A tensor element carries its value and its derivative with respect to one fixed
  but arbitrary network parameter \<open>\<theta>\<close>: this is the part of torch's autograd
  graph that the gradient of a loss with respect to \<open>\<theta>\<close> depends on. Values are
  idealised as reals (no rounding). The arithmetic is that of dual numbers.
\<close>

datatype dual = Dual (val: real) (tan: real)

instantiation dual :: comm_ring_1
begin

definition zero_dual :: dual where "zero_dual = Dual 0 0"
definition one_dual :: dual where "one_dual = Dual 1 0"
definition plus_dual :: "dual \<Rightarrow> dual \<Rightarrow> dual" where
  "plus_dual a b = Dual (val a + val b) (tan a + tan b)"
definition uminus_dual :: "dual \<Rightarrow> dual" where
  "uminus_dual a = Dual (- val a) (- tan a)"
definition minus_dual :: "dual \<Rightarrow> dual \<Rightarrow> dual" where
  "minus_dual a b = Dual (val a - val b) (tan a - tan b)"
definition times_dual :: "dual \<Rightarrow> dual \<Rightarrow> dual" where
  "times_dual a b = Dual (val a * val b) (val a * tan b + tan a * val b)"

instance
proof
  fix a b c :: dual
  show "a + b + c = a + (b + c)" by (simp add: plus_dual_def)
  show "a + b = b + a" by (simp add: plus_dual_def)
  show "0 + a = a" by (simp add: plus_dual_def zero_dual_def)
  show "- a + a = 0" by (simp add: plus_dual_def uminus_dual_def zero_dual_def)
  show "a - b = a + - b" by (simp add: plus_dual_def uminus_dual_def minus_dual_def)
  show "a * b * c = a * (b * c)" by (simp add: times_dual_def algebra_simps)
  show "a * b = b * a" by (simp add: times_dual_def algebra_simps)
  show "1 * a = a" by (simp add: times_dual_def one_dual_def)
  show "(a + b) * c = a * c + b * c" by (simp add: times_dual_def plus_dual_def algebra_simps)
  show "(0::dual) \<noteq> 1" by (simp add: zero_dual_def one_dual_def)
qed

end

text \<open>A Python number entering tensor arithmetic: a constant, derivative 0.\<close>

definition scalar :: "real \<Rightarrow> dual" where
  "scalar r = Dual r 0"

text \<open>\<open>Tensor.detach()\<close> on one element: the value, cut off from the graph.\<close>

definition detach_elem :: "dual \<Rightarrow> dual" where
  "detach_elem a = Dual (val a) 0"

section \<open>Tensors\<close>

text \<open>
  A torch tensor: its shape, its elements by multi-index (read only at indices
  inside the shape) and its \<open>requires_grad\<close> flag. Arithmetic on elements is that
  of the reals (no rounding); device placement is not modelled.
\<close>

record tensor =
  shape :: "nat list"
  elem :: "nat list \<Rightarrow> dual"
  requires_grad :: bool

text \<open>The value of the Python variable \<open>component\<close> in \<open>laplacian\<close>: the int 0, then a tensor.\<close>

datatype pyval = IntV int | TensorV tensor

text \<open>Python slice bounds \<open>start:stop\<close> on an axis of extent \<open>n\<close> (step 1), clamped as Python does.\<close>

definition slice_bounds :: "int option \<Rightarrow> int option \<Rightarrow> nat \<Rightarrow> nat \<times> nat" where
  "slice_bounds start stop n =
     (let norm = (\<lambda>i. if i < 0 then max 0 (int n + i) else min (int n) i);
          lo = (case start of None \<Rightarrow> 0 | Some i \<Rightarrow> norm i);
          hi = (case stop of None \<Rightarrow> int n | Some i \<Rightarrow> norm i)
      in (nat lo, nat (max lo hi)))"

text \<open>\<open>t[:, start:stop]\<close>: raises IndexError on a tensor with fewer than two axes.\<close>

definition slice_axis1 :: "tensor \<Rightarrow> int option \<Rightarrow> int option \<Rightarrow> error + tensor" where
  "slice_axis1 t start stop =
     (if length (shape t) < 2 then Inl IndexError
      else let (lo, hi) = slice_bounds start stop (shape t ! 1)
           in Inr \<lparr>shape = (shape t)[1 := hi - lo],
                   elem = (\<lambda>idx. elem t (idx[1 := idx ! 1 + lo])),
                   requires_grad = requires_grad t\<rparr>)"

text \<open>\<open>t.shape[1]\<close>.\<close>

definition shape1 :: "tensor \<Rightarrow> error + nat" where
  "shape1 t = (if length (shape t) < 2 then Inl IndexError else Inr (shape t ! 1))"

text \<open>Broadcasting of two shapes, aligned at the last axis; \<open>None\<close> when they do not broadcast.\<close>

fun broadcast_rev :: "nat list \<Rightarrow> nat list \<Rightarrow> nat list option" where
  "broadcast_rev [] ys = Some ys"
| "broadcast_rev xs [] = Some xs"
| "broadcast_rev (x # xs) (y # ys) =
     (if x = y \<or> y = 1 then map_option ((#) x) (broadcast_rev xs ys)
      else if x = 1 then map_option ((#) y) (broadcast_rev xs ys)
      else None)"

definition broadcast_shapes :: "nat list \<Rightarrow> nat list \<Rightarrow> nat list option" where
  "broadcast_shapes s1 s2 = map_option rev (broadcast_rev (rev s1) (rev s2))"

text \<open>The index into an operand of shape \<open>s\<close> that a result index \<open>idx\<close> reads.\<close>

definition broadcast_index :: "nat list \<Rightarrow> nat list \<Rightarrow> nat list" where
  "broadcast_index s idx =
     map2 (\<lambda>n i. if n = 1 then 0 else i) s (drop (length idx - length s) idx)"

text \<open>An elementwise binary operation of torch, with broadcasting.\<close>

definition tensor_binop :: "(dual \<Rightarrow> dual \<Rightarrow> dual) \<Rightarrow> tensor \<Rightarrow> tensor \<Rightarrow> error + tensor" where
  "tensor_binop f a b =
     (case broadcast_shapes (shape a) (shape b) of
        None \<Rightarrow> Inl RuntimeError
      | Some s \<Rightarrow>
          Inr \<lparr>shape = s,
               elem = (\<lambda>idx. f (elem a (broadcast_index (shape a) idx))
                                (elem b (broadcast_index (shape b) idx))),
               requires_grad = (requires_grad a \<or> requires_grad b)\<rparr>)"

definition tensor_add :: "tensor \<Rightarrow> tensor \<Rightarrow> error + tensor" where
  "tensor_add = tensor_binop (+)"

definition tensor_mul :: "tensor \<Rightarrow> tensor \<Rightarrow> error + tensor" where
  "tensor_mul = tensor_binop (*)"

text \<open>A Python number times a tensor, and a tensor to an integer power.\<close>

definition scalar_mul :: "real \<Rightarrow> tensor \<Rightarrow> tensor" where
  "scalar_mul r t = t\<lparr>elem := (\<lambda>idx. scalar r * elem t idx)\<rparr>"

definition tensor_pow :: "tensor \<Rightarrow> nat \<Rightarrow> tensor" where
  "tensor_pow t k = t\<lparr>elem := (\<lambda>idx. elem t idx ^ k)\<rparr>"

definition detach :: "tensor \<Rightarrow> tensor" where
  "detach t = t\<lparr>elem := (\<lambda>idx. detach_elem (elem t idx)), requires_grad := False\<rparr>"

text \<open>
  \<open>component += h\<close>: on the int it is \<open>int + Tensor\<close>, a new tensor; on a tensor it
  is the in-place \<open>add_\<close>, which raises when the broadcast shape is not the
  shape of the tensor updated.
\<close>

definition py_iadd :: "pyval \<Rightarrow> tensor \<Rightarrow> error + pyval" where
  "py_iadd component h =
     (case component of
        IntV k \<Rightarrow> Inr (TensorV (h\<lparr>elem := (\<lambda>idx. scalar (real_of_int k) + elem h idx)\<rparr>))
      | TensorV c \<Rightarrow>
          ebind (tensor_add c h)
            (\<lambda>r. if shape r = shape c then Inr (TensorV r) else Inl RuntimeError))"

text \<open>
  \<open>torch.cat(tensors, dim)\<close>: raises TypeError on an element that is not a tensor,
  RuntimeError on an empty list or on tensors whose shapes differ outside \<open>dim\<close>,
  IndexError on a \<open>dim\<close> that is out of range.
\<close>

fun cat_elem :: "tensor list \<Rightarrow> nat \<Rightarrow> nat list \<Rightarrow> dual" where
  "cat_elem [] d idx = 0"
| "cat_elem (t # ts) d idx =
     (if idx ! d < shape t ! d then elem t idx
      else cat_elem ts d (idx[d := idx ! d - shape t ! d]))"

fun as_tensors :: "pyval list \<Rightarrow> error + tensor list" where
  "as_tensors [] = Inr []"
| "as_tensors (IntV k # vs) = Inl TypeError"
| "as_tensors (TensorV t # vs) = ebind (as_tensors vs) (\<lambda>ts. Inr (t # ts))"

definition norm_dim :: "int \<Rightarrow> nat \<Rightarrow> error + nat" where
  "norm_dim dm ndim =
     (if - int ndim \<le> dm \<and> dm < int ndim
      then Inr (nat (if dm < 0 then int ndim + dm else dm))
      else Inl IndexError)"

definition cat_tensors :: "tensor list \<Rightarrow> int \<Rightarrow> error + tensor" where
  "cat_tensors ts dm =
     (case ts of
        [] \<Rightarrow> Inl RuntimeError
      | t # _ \<Rightarrow>
          ebind (norm_dim dm (length (shape t)))
            (\<lambda>d. if list_all (\<lambda>t'. (shape t')[d := 0] = (shape t)[d := 0]) ts
                  then Inr \<lparr>shape = (shape t)[d := sum_list (map (\<lambda>t'. shape t' ! d) ts)],
                            elem = cat_elem ts d,
                            requires_grad = list_ex requires_grad ts\<rparr>
                  else Inl RuntimeError))"

definition torch_cat :: "pyval list \<Rightarrow> int \<Rightarrow> error + tensor" where
  "torch_cat vs dm = ebind (as_tensors vs) (\<lambda>ts. cat_tensors ts dm)"

section \<open>pde.py: the Laplacian\<close>

text \<open>
  \<open>deepxde.grad.hessian(u, x, component=c, i=i, j=j)\<close> is the external
  automatic-differentiation primitive; it is a parameter of the model, of type
  \<open>hessian\<close>: it returns the (N, 1) tensor of second partial derivatives of
  output component \<open>c\<close> with respect to input columns \<open>i\<close> and \<open>j\<close>, or raises.
\<close>

type_synonym hessian = "tensor \<Rightarrow> tensor \<Rightarrow> nat option \<Rightarrow> nat \<Rightarrow> nat \<Rightarrow> error + tensor"

text \<open>The inner loop \<open>for j in range(dim, x.shape[1]): component += hessian(...)\<close>.\<close>

fun sum_hessians :: "hessian \<Rightarrow> tensor \<Rightarrow> tensor \<Rightarrow> nat option \<Rightarrow> nat list \<Rightarrow> pyval \<Rightarrow> error + pyval" where
  "sum_hessians hessian u x c [] component = Inr component"
| "sum_hessians hessian u x c (j # js) component =
     ebind (hessian u x c j j)
       (\<lambda>h. ebind (py_iadd component h)
          (\<lambda>component'. sum_hessians hessian u x c js component'))"

text \<open>The outer loop \<open>for i in range(u.shape[1])\<close>, collecting \<open>components\<close>.\<close>

fun laplacian_components :: "hessian \<Rightarrow> tensor \<Rightarrow> tensor \<Rightarrow> nat \<Rightarrow> nat \<Rightarrow> nat list \<Rightarrow> error + pyval list" where
  "laplacian_components hessian u x dm m [] = Inr []"
| "laplacian_components hessian u x dm m (i # is) =
     (let c = (if m > 1 then Some i else None) in
      ebind (shape1 x)
        (\<lambda>k. ebind (sum_hessians hessian u x c [dm..<k] (IntV 0))
           (\<lambda>component. ebind (laplacian_components hessian u x dm m is)
              (\<lambda>components. Inr (component # components)))))"

definition laplacian :: "hessian \<Rightarrow> tensor \<Rightarrow> tensor \<Rightarrow> nat \<Rightarrow> error + tensor" where
  "laplacian hessian u x dm =
     ebind (shape1 u)
       (\<lambda>m. ebind (laplacian_components hessian u x dm m [0..<m])
          (\<lambda>components. torch_cat components 1))"

section \<open>pde.py: the wave equation\<close>

record WaveEquation =
  detach_flag :: bool
  rho :: real
  homogeneous :: bool
  incompressible :: bool
  debug :: bool

text \<open>\<open>__init__(self, detach, rho=1000, debug=False)\<close>: \<open>None\<close> stands for an argument left out.\<close>

definition WaveEquation_init :: "bool \<Rightarrow> real option \<Rightarrow> bool option \<Rightarrow> WaveEquation" where
  "WaveEquation_init detach_arg rho_arg debug_arg =
     \<lparr>detach_flag = detach_arg,
      rho = (case rho_arg of None \<Rightarrow> 1000 | Some r \<Rightarrow> r),
      homogeneous = True,
      incompressible = True,
      debug = (case debug_arg of None \<Rightarrow> False | Some b \<Rightarrow> b)\<rparr>"

text \<open>\<open>WaveEquation.__call__(self, x, outputs)\<close>.\<close>

definition WaveEquation_call :: "hessian \<Rightarrow> WaveEquation \<Rightarrow> tensor \<Rightarrow> tensor \<Rightarrow> error + tensor" where
  "WaveEquation_call hessian self x outputs =
     ebind (slice_axis1 outputs None (Some (- 1))) (\<lambda>u.
     ebind (slice_axis1 outputs (Some (- 1)) None) (\<lambda>mu.
     ebind (slice_axis1 x None (Some 1)) (\<lambda>omega.
     ebind (laplacian hessian u x 1) (\<lambda>laplace_u.
       let (u, laplace_u) =
             (if detach_flag self then (detach u, detach laplace_u) else (u, laplace_u))
       in
       ebind (tensor_mul mu laplace_u) (\<lambda>div_stress.
       ebind (tensor_mul (scalar_mul (rho self) (tensor_pow (scalar_mul (2 * pi) omega) 2)) u) (\<lambda>f.
         tensor_add div_stress f))))))"

section \<open>numpy arrays and the cohort\<close>

text \<open>
  A numpy array: its shape and its elements by multi-index. A patient's named
  arrays are xarray DataArrays: \<open>data_values\<close> is the array itself (\<open>.values\<close>), \<open>field_points\<close> is
  what the accessor \<open>.field.points(reshape=False)\<close> returns for it (the accessor
  is defined outside these files, so its result is part of the data).
\<close>

record ndarray =
  nshape :: "nat list"
  item :: "nat list \<Rightarrow> real"

record data_array =
  data_values :: ndarray
  field_points :: ndarray

record patient =
  arrays :: "string \<rightharpoonup> data_array"

text \<open>\<open>cohort[idx]\<close> and \<open>patient.arrays[name]\<close>.\<close>

definition cohort_get :: "patient list \<Rightarrow> nat \<Rightarrow> error + patient" where
  "cohort_get cohort idx = (if idx < length cohort then Inr (cohort ! idx) else Inl IndexError)"

definition arrays_get :: "patient \<Rightarrow> string \<Rightarrow> error + data_array" where
  "arrays_get p name = (case arrays p name of None \<Rightarrow> Inl (KeyError name) | Some a \<Rightarrow> Inr a)"

text \<open>The list comprehension \<open>[patient.arrays[seq].values for seq in a_sequences]\<close>.\<close>

fun arrays_values :: "patient \<Rightarrow> string list \<Rightarrow> error + ndarray list" where
  "arrays_values p [] = Inr []"
| "arrays_values p (seq # seqs) =
     ebind (arrays_get p seq) (\<lambda>a. ebind (arrays_values p seqs) (\<lambda>rest. Inr (data_values a # rest)))"

text \<open>\<open>np.stack(arrs, axis=-1)\<close>: raises ValueError on no array or on arrays of different shapes.\<close>

definition np_stack_last :: "ndarray list \<Rightarrow> error + ndarray" where
  "np_stack_last arrs =
     (case arrs of
        [] \<Rightarrow> Inl ValueError
      | a # _ \<Rightarrow>
          if list_all (\<lambda>b. nshape b = nshape a) arrs
          then Inr \<lparr>nshape = nshape a @ [length arrs],
                    item = (\<lambda>idx. item (arrs ! last idx) (butlast idx))\<rparr>
          else Inl ValueError)"

text \<open>\<open>a[..., None]\<close> and \<open>a * c\<close> for a Python float \<open>c\<close>.\<close>

definition expand_last :: "ndarray \<Rightarrow> ndarray" where
  "expand_last a = \<lparr>nshape = nshape a @ [1], item = (\<lambda>idx. item a (butlast idx))\<rparr>"

definition np_scale :: "ndarray \<Rightarrow> real \<Rightarrow> ndarray" where
  "np_scale a c = a\<lparr>item := (\<lambda>idx. item a idx * c)\<rparr>"

text \<open>
  \<open>torch.tensor(a, device=device, dtype=dtype)\<close>: a new leaf tensor that does not
  require gradients; its elements are constants of the graph, each the element
  of \<open>a\<close> converted to the dtype. The dtype is given by its conversion of a float64
  value: for \<open>torch.float32\<close> the rounding to the nearest float32, a primitive of
  torch that the functions below take as the parameter \<open>float32\<close>.
\<close>

type_synonym dtype = "real \<Rightarrow> real"

definition torch_tensor :: "ndarray \<Rightarrow> string \<Rightarrow> dtype \<Rightarrow> tensor" where
  "torch_tensor a device_arg dtype_arg =
     \<lparr>shape = nshape a, elem = (\<lambda>idx. scalar (dtype_arg (item a idx))), requires_grad = False\<rparr>"

text \<open>\<open>torch.stack(ts)\<close>: a new leading axis; raises on no tensor or on different shapes.\<close>

definition torch_stack :: "tensor list \<Rightarrow> error + tensor" where
  "torch_stack ts =
     (case ts of
        [] \<Rightarrow> Inl RuntimeError
      | t # _ \<Rightarrow>
          if list_all (\<lambda>t'. shape t' = shape t) ts
          then Inr \<lparr>shape = length ts # shape t,
                    elem = (\<lambda>idx. elem (ts ! hd idx) (tl idx)),
                    requires_grad = list_ex requires_grad ts\<rparr>
          else Inl RuntimeError)"

text \<open>
  \<open>torch.split(t, split_size, dim=-1)\<close>: the chunks of extent \<open>split_size\<close> along the
  last axis (the last one shorter when the extent is no multiple); one empty
  chunk when the axis has extent 0. A tensor without axes raises RuntimeError.
\<close>

definition torch_split_last :: "tensor \<Rightarrow> nat \<Rightarrow> error + tensor list" where
  "torch_split_last t split_size =
     (if shape t = [] then Inl RuntimeError
      else if split_size = 0 \<and> last (shape t) \<noteq> 0 then Inl RuntimeError
      else if last (shape t) = 0 then Inr [t]
      else let d = length (shape t) - 1; c = last (shape t) in
        Inr (map (\<lambda>k. \<lparr>shape = (shape t)[d := min split_size (c - k * split_size)],
                        elem = (\<lambda>idx. elem t (idx[d := idx ! d + k * split_size])),
                        requires_grad = requires_grad t\<rparr>)
               [0..<(c + split_size - 1) div split_size]))"

section \<open>pino\_training.py: PINOData\<close>

text \<open>
  The PDE object handed to \<open>PINOData\<close> is any Python object: \<open>pde_call\<close> is its
  \<open>__call__\<close> on the positional arguments given, \<open>pde_methods\<close> its other methods
  by name (a name it does not have raises AttributeError at the call site).
\<close>

record pde_object =
  pde_call :: "tensor list \<Rightarrow> error + tensor"
  pde_methods :: "string \<rightharpoonup> (tensor list \<Rightarrow> error + tensor list)"

text \<open>
  The class \<open>WaveEquation\<close> of pde.py as such an object: \<open>__call__(self, x, outputs)\<close>
  takes two arguments (any other number raises TypeError), and the class has no
  other method.
\<close>

definition WaveEquation_object :: "hessian \<Rightarrow> WaveEquation \<Rightarrow> pde_object" where
  "WaveEquation_object hessian self =
     \<lparr>pde_call = (\<lambda>args. case args of
                     [x, outputs] \<Rightarrow> WaveEquation_call hessian self x outputs
                   | _ \<Rightarrow> Inl TypeError),
      pde_methods = Map.empty\<rparr>"

text \<open>
  \<open>'s\<close> is the state of the batch sampler, \<open>deepxde.data.BatchSampler\<close>, an external
  class: its constructor and its \<open>get_next\<close> are parameters of the functions below.
\<close>

record 's PINOData =
  cohort :: "patient list"
  pde :: pde_object
  mask_level :: real
  batch_sampler :: 's
  batch_size :: "nat option"
  patch_size :: "nat option"
  device :: string

text \<open>
  \<open>__init__(self, cohort, pde, patch_size=None, batch_size=None, device='cuda')\<close>;
  \<open>new_sampler\<close> is \<open>deepxde.data.BatchSampler(num_samples, shuffle=...)\<close>.
\<close>

definition PINOData_init ::
  "(nat \<Rightarrow> bool \<Rightarrow> 's) \<Rightarrow> patient list \<Rightarrow> pde_object \<Rightarrow> nat option \<Rightarrow> nat option \<Rightarrow> string option
     \<Rightarrow> 's PINOData" where
  "PINOData_init new_sampler cohort_arg pde_arg patch_size_arg batch_size_arg device_arg =
     \<lparr>cohort = cohort_arg,
      pde = pde_arg,
      mask_level = 1.0,
      batch_sampler = new_sampler (length cohort_arg) True,
      batch_size = batch_size_arg,
      patch_size = patch_size_arg,
      device = (case device_arg of None \<Rightarrow> ''cuda'' | Some d \<Rightarrow> d)\<rparr>"

text \<open>
  \<open>losses(self, targets, outputs, loss_fn, inputs, model, aux=None)\<close>. \<open>inputs\<close> and
  \<open>outputs\<close> are Python sequences; unpacking one of the wrong length raises
  ValueError. \<open>loss_fn\<close> is the caller's function; its first argument is a tensor
  or the int 0. \<open>model\<close> and \<open>aux\<close> are not used.
\<close>

type_synonym 'l loss_fn = "pyval \<Rightarrow> tensor \<Rightarrow> tensor \<Rightarrow> real \<Rightarrow> error + 'l"

definition losses ::
  "'s PINOData \<Rightarrow> tensor \<Rightarrow> tensor list \<Rightarrow> 'l loss_fn \<Rightarrow> tensor list \<Rightarrow> 'm \<Rightarrow> 'x option
     \<Rightarrow> error + 'l list" where
  "losses self targets outputs loss_fn inputs model aux =
     (case inputs of
        [a, x] \<Rightarrow>
          ebind (torch_split_last targets 1) (\<lambda>parts.
            case parts of
              [u_true, mu_true, mask_t] \<Rightarrow>
                (case take 2 outputs of
                   [u_pred, mu_pred] \<Rightarrow>
                     ebind (loss_fn (TensorV u_true) u_pred mask_t (mask_level self)) (\<lambda>u_loss.
                     ebind (loss_fn (TensorV mu_true) mu_pred mask_t (mask_level self)) (\<lambda>mu_loss.
                     ebind (pde_call (pde self) [x, u_pred, mu_pred]) (\<lambda>pde_res.
                     ebind (loss_fn (IntV 0) pde_res mask_t (mask_level self)) (\<lambda>pde_loss.
                       Inr [u_loss, mu_loss, pde_loss]))))
                 | _ \<Rightarrow> Inl ValueError)
            | _ \<Rightarrow> Inl ValueError)
      | _ \<Rightarrow> Inl ValueError)"

text \<open>
  \<open>get_tensors(self, idx, patch_size=None)\<close>. In the branch \<open>patch_size is not None\<close>
  the first statement reads \<open>y.shape[:3]\<close>; no name \<open>y\<close> is bound in the function or
  in the module, so the branch raises NameError before it draws a patch origin or
  crops anything. The statements after it in the branch are never reached.
  The product \<open>points * 1e-3\<close> is taken in the reals.
\<close>

definition a_sequences :: "string list" where
  "a_sequences = [''t1_pre_in'', ''t1_pre_out'', ''t1_pre_water'', ''t1_pre_fat'']"

definition get_tensors ::
  "dtype \<Rightarrow> 's PINOData \<Rightarrow> nat \<Rightarrow> nat option \<Rightarrow> error + (tensor list \<times> tensor \<times> tensor list)" where
  "get_tensors float32 self idx patch_size_arg =
     ebind (cohort_get (cohort self) idx) (\<lambda>patient.
     ebind (arrays_values patient a_sequences) (\<lambda>a_arrays.
     ebind (np_stack_last a_arrays) (\<lambda>a.
     ebind (arrays_get patient ''wave'') (\<lambda>wave_x.
       let x = np_scale (field_points wave_x) (1 / 1000) in
     ebind (arrays_get patient ''wave'') (\<lambda>wave.
       let u = expand_last (data_values wave) in
     ebind (arrays_get patient ''mre'') (\<lambda>mre.
       let mu = expand_last (data_values mre) in
     ebind (arrays_get patient ''mre_mask'') (\<lambda>mre_mask.
       let mask_t = expand_last (data_values mre_mask) in
       (case patch_size_arg of
          Some p \<Rightarrow> Inl (NameError ''y'')
        | None \<Rightarrow>
            let a = torch_tensor a (device self) float32;
                x = torch_tensor x (device self) float32;
                u = torch_tensor u (device self) float32;
                mu = torch_tensor mu (device self) float32;
                mask_t = torch_tensor mask_t (device self) float32
            in ebind (cat_tensors [u, mu, mask_t] (- 1)) (\<lambda>target.
                 Inr ([u, x], target, []))))))))))"

text \<open>\<open>batch_size or self.batch_size\<close>: \<open>None\<close> and 0 are false.\<close>

definition py_or :: "nat option \<Rightarrow> nat option \<Rightarrow> nat option" where
  "py_or a b = (case a of None \<Rightarrow> b | Some n \<Rightarrow> if n = 0 then b else Some n)"

text \<open>The loop \<open>for idx in batch_inds\<close>, appending to \<open>inputs\<close>, \<open>targets\<close> and \<open>aux_vars\<close>.\<close>

fun batch_tensors ::
  "dtype \<Rightarrow> 's PINOData \<Rightarrow> nat list
     \<Rightarrow> error + (tensor list list \<times> tensor list \<times> tensor list list)" where
  "batch_tensors float32 self [] = Inr ([], [], [])"
| "batch_tensors float32 self (idx # inds) =
     ebind (get_tensors float32 self idx (patch_size self)) (\<lambda>(input, target, aux).
     ebind (batch_tensors float32 self inds) (\<lambda>(inputs, targets, aux_vars).
       Inr (input # inputs, target # targets, aux # aux_vars)))"

text \<open>\<open>zip(*rows)\<close>: the columns of the rows, as many as the shortest row has.\<close>

definition zip_star :: "'a list list \<Rightarrow> 'a list list" where
  "zip_star rows =
     (case rows of
        [] \<Rightarrow> []
      | r # rs \<Rightarrow> map (\<lambda>k. map (\<lambda>row. row ! k) rows) [0..<fold min (map length rs) (length r)])"

text \<open>\<open>tuple(torch.stack(x) for x in zip(*rows))\<close>.\<close>

fun stack_all :: "tensor list list \<Rightarrow> error + tensor list" where
  "stack_all [] = Inr []"
| "stack_all (col # cols) =
     ebind (torch_stack col) (\<lambda>t. ebind (stack_all cols) (\<lambda>ts. Inr (t # ts)))"

text \<open>
  \<open>train_next_batch(self, batch_size=None, return_inds=False)\<close>. The sampler is
  advanced by \<open>get_next\<close> before the tensors are built, so the new state of the
  object is returned beside the result or the exception. The fourth component of
  the result is the tuple's \<open>batch_inds\<close>, present when \<open>return_inds\<close> is true.
\<close>

type_synonym 's get_next = "'s \<Rightarrow> nat option \<Rightarrow> error + (nat list \<times> 's)"

type_synonym batch = "tensor list \<times> tensor \<times> tensor list \<times> nat list option"

definition train_next_batch ::
  "'s get_next \<Rightarrow> dtype \<Rightarrow> 's PINOData \<Rightarrow> nat option \<Rightarrow> bool
     \<Rightarrow> (error + batch) \<times> 's PINOData" where
  "train_next_batch get_next float32 self batch_size_arg return_inds =
     (let batch_size = py_or batch_size_arg (batch_size self) in
      case get_next (batch_sampler self) batch_size of
        Inl e \<Rightarrow> (Inl e, self)
      | Inr (batch_inds, sampler') \<Rightarrow>
          let self' = self\<lparr>batch_sampler := sampler'\<rparr> in
          (ebind (batch_tensors float32 self' batch_inds) (\<lambda>(inputs, targets, aux_vars).
           ebind (stack_all (zip_star inputs)) (\<lambda>inputs.
           ebind (torch_stack targets) (\<lambda>targets.
           ebind (stack_all (zip_star aux_vars)) (\<lambda>aux_vars.
             Inr (inputs, targets, aux_vars, if return_inds then Some batch_inds else None))))),
           self'))"

text \<open>\<open>PINOData.test(self, return_inds=False)\<close>.\<close>

definition PINOData_test ::
  "'s get_next \<Rightarrow> dtype \<Rightarrow> 's PINOData \<Rightarrow> bool \<Rightarrow> (error + batch) \<times> 's PINOData" where
  "PINOData_test get_next float32 self return_inds =
     train_next_batch get_next float32 self (Some 1) return_inds"

text \<open>
  The states of a \<open>PINOData\<close> object that its own operations can produce: the
  constructor's, and the state left by \<open>train_next_batch\<close> or \<open>test\<close> called with any
  arguments, whether the call returned or raised. (\<open>losses\<close> and \<open>get_tensors\<close> assign no
  attribute; \<open>PINOModel\<close> reaches the object only through these operations.)
\<close>

inductive reachable ::
  "(nat \<Rightarrow> bool \<Rightarrow> 's) \<Rightarrow> 's get_next \<Rightarrow> dtype \<Rightarrow> 's PINOData \<Rightarrow> bool"
  for new_sampler :: "nat \<Rightarrow> bool \<Rightarrow> 's" and get_next :: "'s get_next" and float32 :: dtype where
  reachable_init:
    "reachable new_sampler get_next float32
       (PINOData_init new_sampler cohort_arg pde_arg patch_size_arg batch_size_arg device_arg)"
| reachable_train_next_batch:
    "reachable new_sampler get_next float32 self \<Longrightarrow>
     reachable new_sampler get_next float32
       (snd (train_next_batch get_next float32 self batch_size_arg return_inds))"
| reachable_test:
    "reachable new_sampler get_next float32 self \<Longrightarrow>
     reachable new_sampler get_next float32 (snd (PINOData_test get_next float32 self return_inds))"

section \<open>pino\_training.py: PINOModel\<close>

text \<open>The network is an external object; \<open>forward\<close> is \<open>net.forward(inputs=..., debug=...)\<close>.\<close>

record net_object =
  forward :: "tensor list \<Rightarrow> bool \<Rightarrow> error + tensor list"

record 's PINOModel =
  data :: "'s PINOData"
  net :: net_object

text \<open>\<open>__init__(self, data, net, pde, patch_size=None, batch_size=None)\<close>.\<close>

definition PINOModel_init ::
  "(nat \<Rightarrow> bool \<Rightarrow> 's) \<Rightarrow> patient list \<Rightarrow> net_object \<Rightarrow> pde_object \<Rightarrow> nat option \<Rightarrow> nat option
     \<Rightarrow> 's PINOModel" where
  "PINOModel_init new_sampler data_arg net_arg pde_arg patch_size_arg batch_size_arg =
     \<lparr>data = PINOData_init new_sampler data_arg pde_arg patch_size_arg batch_size_arg None,
      net = net_arg\<rparr>"

text \<open>
  \<open>predict(self, a, x)\<close>. The assignment \<open>x.requires_grad = True\<close> changes the
  caller's tensor; every later use of \<open>x\<close> sees the flag set.
\<close>

definition predict ::
  "hessian \<Rightarrow> 's PINOModel \<Rightarrow> tensor \<Rightarrow> tensor
     \<Rightarrow> error + (tensor \<times> tensor \<times> tensor \<times> tensor \<times> tensor)" where
  "predict hessian self a x =
     (let x = x\<lparr>requires_grad := True\<rparr> in
      ebind (forward (net self) [a, x] True) (\<lambda>out.
        case out of
          [u_pred, mu_pred] \<Rightarrow>
            ebind (laplacian hessian u_pred x 0) (\<lambda>lu_pred.
              case pde_methods (pde (data self)) ''traction_and_body_forces'' of
                None \<Rightarrow> Inl (AttributeError ''traction_and_body_forces'')
              | Some traction_and_body_forces \<Rightarrow>
                  ebind (traction_and_body_forces [x, u_pred, mu_pred]) (\<lambda>forces.
                    case forces of
                      [f_trac, f_body] \<Rightarrow> Inr (u_pred, mu_pred, lu_pred, f_trac, f_body)
                    | _ \<Rightarrow> Inl ValueError))
        | _ \<Rightarrow> Inl ValueError))"

text \<open>
  \<open>PINOModel.test(self)\<close>. Its first statement asks the data object for a test
  batch, with the drawn indices; its second calls \<open>predict\<close> on the unpacked inputs
  (unpacking another number of inputs than two raises TypeError at the call).
  The statements after these two, which are reached only when \<open>predict\<close> has
  returned, are the parameter \<open>rest\<close>: the baseline quotient, the scaling of
  \<open>mu_pred\<close> and the packaging of the results as xarrays, a function of the batch
  (whose second input has \<open>requires_grad\<close> set by then), of the five tensors
  that \<open>predict\<close> returned and of the object. The object is returned with the
  sampler advanced.
\<close>

definition PINOModel_test ::
  "'s get_next \<Rightarrow> dtype \<Rightarrow> hessian
     \<Rightarrow> (batch \<Rightarrow> tensor \<times> tensor \<times> tensor \<times> tensor \<times> tensor \<Rightarrow> 's PINOModel \<Rightarrow> error + 'r)
     \<Rightarrow> 's PINOModel \<Rightarrow> (error + 'r) \<times> 's PINOModel" where
  "PINOModel_test get_next float32 hessian rest self =
     (case PINOData_test get_next float32 (data self) True of
        (Inl e, data') \<Rightarrow> (Inl e, self\<lparr>data := data'\<rparr>)
      | (Inr (inputs, targets, aux_vars, inds), data') \<Rightarrow>
          let self' = self\<lparr>data := data'\<rparr> in
          (case inputs of
             [a, x] \<Rightarrow>
               ebind (predict hessian self' a x) (\<lambda>predicted.
                 rest ([a, x\<lparr>requires_grad := True\<rparr>], targets, aux_vars, inds) predicted self')
           | _ \<Rightarrow> Inl TypeError,
           self'))"

section \<open>The batch sampler\<close>

text \<open>
  Modelled from the spec: \<open>deepxde.data.BatchSampler\<close>, the sampler that
  \<open>PINOData.__init__\<close> constructs and \<open>train_next_batch\<close> asks for indices; its code is
  not among the source files. The spec: it "draws \<open>batch_size\<close> indices without
  replacement from a shuffled per-epoch ordering (reshuffled once the epoch is
  exhausted)". The ordering is one of \<open>range(num_samples)\<close>; a call that the rest of
  the ordering cannot serve takes the rest, reshuffles, and goes on in the new
  ordering. Shuffling is \<open>np.random.shuffle\<close>, the parameter \<open>np_shuffle\<close>, which
  threads the generator's state \<open>'g\<close>. A batch size that is \<open>None\<close> or larger than
  \<open>num_samples\<close> is refused.
\<close>

record 'g BatchSampler =
  num_samples :: nat
  shuffle_flag :: bool
  indices :: "nat list"
  epochs_completed :: nat
  index_in_epoch :: nat
  generator :: 'g

type_synonym 'g np_shuffle = "'g \<Rightarrow> nat list \<Rightarrow> nat list \<times> 'g"

text \<open>
  Modelled from the spec: the constructor of \<open>deepxde.data.BatchSampler\<close> (not among
  the source files), \<open>BatchSampler(num_samples, shuffle=...)\<close>: the first epoch's
  ordering, shuffled when \<open>shuffle\<close> is true.
\<close>

definition BatchSampler_init :: "'g np_shuffle \<Rightarrow> 'g \<Rightarrow> nat \<Rightarrow> bool \<Rightarrow> 'g BatchSampler" where
  "BatchSampler_init np_shuffle g n shuffle_arg =
     (let (inds, g') = (if shuffle_arg then np_shuffle g [0..<n] else ([0..<n], g)) in
      \<lparr>num_samples = n,
       shuffle_flag = shuffle_arg,
       indices = inds,
       epochs_completed = 0,
       index_in_epoch = 0,
       generator = g'\<rparr>)"

text \<open>
  Modelled from the spec: \<open>get_next(batch_size)\<close> of \<open>deepxde.data.BatchSampler\<close> (not
  among the source files): the next \<open>batch_size\<close> indices of the epoch's ordering,
  reshuffled once the epoch is exhausted.
\<close>

definition BatchSampler_get_next :: "'g np_shuffle \<Rightarrow> 'g BatchSampler get_next" where
  "BatchSampler_get_next np_shuffle self batch_size_arg =
     (case batch_size_arg of
        None \<Rightarrow> Inl TypeError
      | Some b \<Rightarrow>
          if b > num_samples self then Inl ValueError
          else
            let start = index_in_epoch self in
            if start + b \<le> num_samples self
            then Inr (take b (drop start (indices self)), self\<lparr>index_in_epoch := start + b\<rparr>)
            else
              let indices_rest_part = drop start (indices self);
                  (inds, g') = (if shuffle_flag self then np_shuffle (generator self) (indices self)
                                else (indices self, generator self));
                  k = b - (num_samples self - start)
              in Inr (indices_rest_part @ take k inds,
                      self\<lparr>indices := inds, generator := g',
                           epochs_completed := epochs_completed self + 1,
                           index_in_epoch := k\<rparr>))"

text \<open>
  The orderings that \<open>e\<close> successive shuffles produce, starting from the list \<open>xs\<close>
  with the generator in state \<open>g\<close>: each is the shuffle of the one before.
\<close>

fun orderings :: "'g np_shuffle \<Rightarrow> 'g \<Rightarrow> nat list \<Rightarrow> nat \<Rightarrow> nat list list" where
  "orderings np_shuffle g xs 0 = []"
| "orderings np_shuffle g xs (Suc e) =
     fst (np_shuffle g xs)
       # orderings np_shuffle (snd (np_shuffle g xs)) (fst (np_shuffle g xs)) e"

text \<open>
  \<open>k\<close> successive calls of the sampler's \<open>get_next(batch_size)\<close>: the index lists
  drawn, in order, and the sampler after the last call.
\<close>

fun get_next_batches :: "'s get_next \<Rightarrow> 's \<Rightarrow> nat option \<Rightarrow> nat \<Rightarrow> error + (nat list list \<times> 's)" where
  "get_next_batches get_next sampler batch_size_arg 0 = Inr ([], sampler)"
| "get_next_batches get_next sampler batch_size_arg (Suc k) =
     ebind (get_next sampler batch_size_arg) (\<lambda>(batch_inds, sampler').
     ebind (get_next_batches get_next sampler' batch_size_arg k) (\<lambda>(rest, sampler'').
       Inr (batch_inds # rest, sampler'')))"

text \<open>
  Successive calls \<open>train_next_batch(batch_size, return_inds=flag)\<close>, one for each
  flag of the list: the fourth components of their results, in order, and the
  object after the last call; the first exception ends the run.
\<close>

fun draws ::
  "'s get_next \<Rightarrow> dtype \<Rightarrow> 's PINOData \<Rightarrow> nat option \<Rightarrow> bool list
     \<Rightarrow> error + (nat list option list \<times> 's PINOData)" where
  "draws get_next float32 self batch_size_arg [] = Inr ([], self)"
| "draws get_next float32 self batch_size_arg (return_inds # flags) =
     (case train_next_batch get_next float32 self batch_size_arg return_inds of
        (Inl e, self') \<Rightarrow> Inl e
      | (Inr (inputs, targets, aux_vars, inds), self') \<Rightarrow>
          ebind (draws get_next float32 self' batch_size_arg flags) (\<lambda>(rest, self'').
            Inr (inds # rest, self'')))"

text \<open>
  What holds of the sampler between calls: it shuffles, its ordering is a
  permutation of \<open>range(n)\<close> and its cursor lies within it.
\<close>

definition sampler_inv :: "nat \<Rightarrow> 'g BatchSampler \<Rightarrow> bool" where
  "sampler_inv n s \<longleftrightarrow>
     num_samples s = n \<and> shuffle_flag s \<and> mset (indices s) = mset [0..<n] \<and> index_in_epoch s \<le> n"

text \<open>The chunk \<open>k\<close> of \<open>torch.split(t, 1, dim=-1)\<close>.\<close>

definition chunk :: "tensor \<Rightarrow> nat \<Rightarrow> tensor" where
  "chunk t k =
     \<lparr>shape = (shape t)[length (shape t) - 1 := 1],
      elem = (\<lambda>idx. elem t (idx[length (shape t) - 1 := idx ! (length (shape t) - 1) + k])),
      requires_grad = requires_grad t\<rparr>"

section \<open>Example inputs\<close>

text \<open>Concrete tensors and a concrete Hessian primitive, on which the theorems are evaluated.\<close>

definition ex_x :: tensor where
  "ex_x = \<lparr>shape = [2, 4], elem = (\<lambda>idx. Dual (real (idx ! 0 + idx ! 1) + 1) 0), requires_grad = True\<rparr>"

definition ex_outputs :: tensor where
  "ex_outputs = \<lparr>shape = [2, 4],
                  elem = (\<lambda>idx. Dual (real (idx ! 1) + 2) (if idx ! 1 < 3 then 1 else 0)),
                  requires_grad = True\<rparr>"

definition ex_dxx :: "nat \<Rightarrow> nat \<Rightarrow> nat \<Rightarrow> dual" where
  "ex_dxx i j p = Dual (real (i + j + p)) 1"

definition ex_hessian :: hessian where
  "ex_hessian u x c i j =
     (case c of
        Some m \<Rightarrow>
          if 1 < shape u ! 1
          then Inr \<lparr>shape = [shape x ! 0, 1], elem = (\<lambda>idx. ex_dxx m j (idx ! 0)), requires_grad = True\<rparr>
          else Inl ValueError
      | None \<Rightarrow>
          if shape u ! 1 = 1
          then Inr \<lparr>shape = [shape x ! 0, 1], elem = (\<lambda>idx. ex_dxx 0 j (idx ! 0)), requires_grad = True\<rparr>
          else Inl ValueError)"

definition ex_column :: tensor where
  "ex_column = \<lparr>shape = [2, 1], elem = (\<lambda>idx. Dual (real (idx ! 0) + 5) 1), requires_grad = True\<rparr>"

definition ex_array :: "real \<Rightarrow> ndarray" where
  "ex_array c = \<lparr>nshape = [2, 2, 1], item = (\<lambda>idx. real (idx ! 0) + 2 * real (idx ! 1) + c)\<rparr>"

definition ex_points :: ndarray where
  "ex_points = \<lparr>nshape = [2, 2, 1, 3], item = (\<lambda>idx. 100 * real (idx ! (idx ! 3)))\<rparr>"

definition ex_data_array :: "real \<Rightarrow> data_array" where
  "ex_data_array c = \<lparr>data_values = ex_array c, field_points = ex_points\<rparr>"

definition ex_patient :: "real \<Rightarrow> patient" where
  "ex_patient c =
     \<lparr>arrays = [''t1_pre_in'' \<mapsto> ex_data_array (c + 1),
                ''t1_pre_out'' \<mapsto> ex_data_array (c + 2),
                ''t1_pre_water'' \<mapsto> ex_data_array (c + 3),
                ''t1_pre_fat'' \<mapsto> ex_data_array (c + 4),
                ''wave'' \<mapsto> ex_data_array (c + 16777214),
                ''mre'' \<mapsto> ex_data_array (c + 6),
                ''mre_mask'' \<mapsto> ex_data_array (c + 7)]\<rparr>"

definition ex_cohort :: "patient list" where
  "ex_cohort = [ex_patient 0, ex_patient 10, ex_patient 20]"

definition ex_pde :: pde_object where
  "ex_pde = WaveEquation_object ex_hessian (WaveEquation_init True None None)"

definition ex_shuffle :: "nat np_shuffle" where
  "ex_shuffle g xs = (rotate g xs, g + 1)"

definition ex_data :: "nat BatchSampler PINOData" where
  "ex_data = PINOData_init (BatchSampler_init ex_shuffle 1) ex_cohort ex_pde None None None"

definition ex_loss_fn :: "real loss_fn" where
  "ex_loss_fn target prediction mask_arg strength =
     Inr ((case target of IntV k \<Rightarrow> real_of_int k | TensorV t \<Rightarrow> val (elem t [0, 0]))
          + 10 * val (elem prediction [0, 0]) + 100 * val (elem mask_arg [0, 0]) * strength)"

definition ex_targets :: tensor where
  "ex_targets = \<lparr>shape = [2, 3], elem = (\<lambda>idx. scalar (real (idx ! 1) + 1)), requires_grad = False\<rparr>"

definition ex_prediction :: "tensor \<Rightarrow> real \<Rightarrow> tensor" where
  "ex_prediction x c =
     \<lparr>shape = butlast (shape x) @ [1], elem = (\<lambda>idx. Dual (real (idx ! 0) + c) 1),
      requires_grad = True\<rparr>"

definition ex_net :: net_object where
  "ex_net = \<lparr>forward = (\<lambda>inputs dbg. case inputs of
                           [a, x] \<Rightarrow> if requires_grad x
                                     then Inr [ex_prediction x 5, ex_prediction x 7]
                                     else Inl RuntimeError
                         | _ \<Rightarrow> Inl TypeError)\<rparr>"

definition ex_model :: "nat BatchSampler PINOModel" where
  "ex_model = PINOModel_init (BatchSampler_init ex_shuffle 1) ex_cohort ex_net ex_pde None None"

text \<open>
  An example dtype: the rounding of a real to the nearest value with 24
  significant bits, ties to the even one, with the exponent bounded below as for
  float32 (the rounding to float32 of a value within its finite range).
\<close>

definition ex_float32 :: dtype where
  "ex_float32 x =
     (if x = 0 then 0
      else let e = max \<lfloor>log 2 \<bar>x\<bar>\<rfloor> (- 126);
               ulp = 2 powr real_of_int (e - 23);
               q = x / ulp;
               f = \<lfloor>q\<rfloor>;
               r = q - real_of_int f
           in ulp * real_of_int (if r < 1 / 2 then f else if 1 / 2 < r then f + 1
                                 else if even f then f else f + 1))"

section \<open>Properties of the Laplacian and of the wave equation\<close>

lemma val_plus [simp]: "val (a + b) = val a + val b" by (simp add: plus_dual_def)
lemma tan_plus [simp]: "tan (a + b) = tan a + tan b" by (simp add: plus_dual_def)
lemma val_times [simp]: "val (a * b) = val a * val b" by (simp add: times_dual_def)
lemma tan_times [simp]: "tan (a * b) = val a * tan b + tan a * val b" by (simp add: times_dual_def)
lemma scalar_zero [simp]: "scalar 0 = 0" by (simp add: scalar_def zero_dual_def)

lemma broadcast_shapes_col [simp]: "broadcast_shapes [n, Suc 0] [n, Suc 0] = Some [n, Suc 0]"
  by (simp add: broadcast_shapes_def)

lemma broadcast_index_col [simp]: "i < n \<Longrightarrow> broadcast_index [n, Suc 0] [i, k] = [i, 0]"
  by (auto simp add: broadcast_index_def)

lemma sum_hessians_tensor:
  assumes "\<forall>j \<in> set js. \<exists>h. hessian u x c j j = Inr h \<and> shape h = [n, 1] \<and> (\<forall>i<n. elem h [i, 0] = g j i)"
    and "shape acc = [n, 1]"
  shows "\<exists>r. sum_hessians hessian u x c js (TensorV acc) = Inr (TensorV r) \<and> shape r = [n, 1]
            \<and> (\<forall>i<n. elem r [i, 0] = elem acc [i, 0] + sum_list (map (\<lambda>j. g j i) js))"
  using assms
proof (induction js arbitrary: acc)
  case Nil
  then show ?case by simp
next
  case (Cons j js)
  from Cons.prems(1) obtain h where h: "hessian u x c j j = Inr h" "shape h = [n, 1]"
      "\<forall>i<n. elem h [i, 0] = g j i" by auto
  define acc' where "acc' = \<lparr>shape = [n, 1],
       elem = (\<lambda>idx. elem acc (broadcast_index [n, 1] idx) + elem h (broadcast_index [n, 1] idx)),
       requires_grad = (requires_grad acc \<or> requires_grad h)\<rparr>"
  have step: "py_iadd (TensorV acc) h = Inr (TensorV acc')"
    using h Cons.prems(2)
    by (simp add: py_iadd_def tensor_add_def tensor_binop_def ebind_def acc'_def)
  have sh: "shape acc' = [n, 1]" by (simp add: acc'_def)
  have el: "\<forall>i<n. elem acc' [i, 0] = elem acc [i, 0] + g j i"
    using h by (simp add: acc'_def)
  from Cons.prems(1) have rest: "\<forall>j \<in> set js. \<exists>h. hessian u x c j j = Inr h \<and> shape h = [n, 1] \<and> (\<forall>i<n. elem h [i, 0] = g j i)"
    by simp
  from Cons.IH [OF rest sh] obtain r where r: "sum_hessians hessian u x c js (TensorV acc') = Inr (TensorV r)"
     "shape r = [n, 1]" "\<forall>i<n. elem r [i, 0] = elem acc' [i, 0] + sum_list (map (\<lambda>j. g j i) js)" by blast
  have "sum_hessians hessian u x c (j # js) (TensorV acc) = Inr (TensorV r)"
    using h step r by (simp add: ebind_def)
  moreover have "\<forall>i<n. elem r [i, 0] = elem acc [i, 0] + sum_list (map (\<lambda>j. g j i) (j # js))"
    using r(3) el by (simp add: add.assoc)
  ultimately show ?case using r(2) by blast
qed

lemma sum_hessians_int:
  assumes "\<forall>j \<in> set js. \<exists>h. hessian u x c j j = Inr h \<and> shape h = [n, 1] \<and> (\<forall>i<n. elem h [i, 0] = g j i)"
    and "js \<noteq> []"
  shows "\<exists>r. sum_hessians hessian u x c js (IntV 0) = Inr (TensorV r) \<and> shape r = [n, 1]
            \<and> (\<forall>i<n. elem r [i, 0] = sum_list (map (\<lambda>j. g j i) js))"
proof -
  from assms(2) obtain j js' where js: "js = j # js'" by (cases js) auto
  from assms(1) js obtain h where h: "hessian u x c j j = Inr h" "shape h = [n, 1]"
      "\<forall>i<n. elem h [i, 0] = g j i" by auto
  define acc where "acc = h\<lparr>elem := (\<lambda>idx. scalar (real_of_int 0) + elem h idx)\<rparr>"
  have step: "py_iadd (IntV 0) h = Inr (TensorV acc)"
    by (simp add: py_iadd_def acc_def)
  have sh: "shape acc = [n, 1]" using h by (simp add: acc_def)
  have el: "\<forall>i<n. elem acc [i, 0] = g j i" using h by (simp add: acc_def)
  from assms(1) js have rest: "\<forall>j \<in> set js'. \<exists>h. hessian u x c j j = Inr h \<and> shape h = [n, 1] \<and> (\<forall>i<n. elem h [i, 0] = g j i)"
    by simp
  obtain r where r: "sum_hessians hessian u x c js' (TensorV acc) = Inr (TensorV r)"
     "shape r = [n, 1]" "\<forall>i<n. elem r [i, 0] = elem acc [i, 0] + sum_list (map (\<lambda>j. g j i) js')"
    using sum_hessians_tensor [where hessian = hessian and g = g and js = js' and acc = acc and n = n and c = c and u = u and x = x] rest sh
    by blast
  have "sum_hessians hessian u x c js (IntV 0) = Inr (TensorV r)"
    using h step r js by (simp add: ebind_def)
  moreover have "\<forall>i<n. elem r [i, 0] = sum_list (map (\<lambda>j. g j i) js)"
    using r(3) el js by simp
  ultimately show ?thesis using r(2) by blast
qed

lemma as_tensors_map: "as_tensors (map TensorV ts) = Inr ts"
  by (induction ts) (simp_all add: ebind_def)

lemma cat_elem_cols:
  assumes "\<forall>t \<in> set ts. shape t = [n, Suc 0]" and "m < length ts"
  shows "cat_elem ts (Suc 0) [i, m] = elem (ts ! m) [i, 0]"
  using assms
proof (induction ts arbitrary: m)
  case Nil
  then show ?case by simp
next
  case (Cons t ts)
  then show ?case by (cases m) simp_all
qed

lemma cat_tensors_cols:
  assumes "\<forall>t \<in> set ts. shape t = [n, Suc 0]" and "ts \<noteq> []"
  shows "\<exists>r. cat_tensors ts 1 = Inr r \<and> shape r = [n, length ts]
            \<and> (\<forall>i m. m < length ts \<longrightarrow> elem r [i, m] = elem (ts ! m) [i, 0])"
proof -
  from assms(2) obtain t ts' where ts: "ts = t # ts'" by (cases ts) auto
  have sh: "shape t = [n, Suc 0]" using assms(1) ts by simp
  have s: "sum_list (map (\<lambda>t'. shape t' ! Suc 0) ts) = length ts"
    using assms(1) by (induction ts) simp_all
  have "cat_tensors ts 1 = Inr \<lparr>shape = [n, length ts], elem = cat_elem ts (Suc 0),
            requires_grad = list_ex requires_grad ts\<rparr>"
    using assms(1) sh s unfolding ts cat_tensors_def norm_dim_def ebind_def
    by (simp add: list_all_iff)
  then show ?thesis
    using cat_elem_cols [OF assms(1)] by simp
qed

lemma laplacian_components_cols:
  assumes "\<forall>i \<in> set cs. \<forall>j \<in> set js. \<exists>h. hessian u x (if 1 < m then Some i else None) j j = Inr h
              \<and> shape h = [n, 1] \<and> (\<forall>p<n. elem h [p, 0] = g i j p)"
    and "shape1 x = Inr k" and "js = [dm..<k]" and "js \<noteq> []"
  shows "\<exists>ts. laplacian_components hessian u x dm m cs = Inr (map TensorV ts) \<and> length ts = length cs
            \<and> (\<forall>q < length cs. shape (ts ! q) = [n, 1]
                  \<and> (\<forall>p<n. elem (ts ! q) [p, 0] = sum_list (map (\<lambda>j. g (cs ! q) j p) js)))"
  using assms(1)
proof (induction cs)
  case Nil
  then show ?case by simp
next
  case (Cons i cs)
  have "\<forall>j \<in> set js. \<exists>h. hessian u x (if 1 < m then Some i else None) j j = Inr h
              \<and> shape h = [n, 1] \<and> (\<forall>p<n. elem h [p, 0] = g i j p)"
    using Cons.prems by simp
  then obtain r where r: "sum_hessians hessian u x (if 1 < m then Some i else None) js (IntV 0) = Inr (TensorV r)"
    "shape r = [n, 1]" "\<forall>p<n. elem r [p, 0] = sum_list (map (\<lambda>j. g i j p) js)"
    using sum_hessians_int [where hessian = hessian and g = "g i" and js = js and n = n and u = u and x = x
        and c = "if 1 < m then Some i else None"] assms(4)
    by blast
  from Cons.prems have "\<forall>i \<in> set cs. \<forall>j \<in> set js. \<exists>h. hessian u x (if 1 < m then Some i else None) j j = Inr h
              \<and> shape h = [n, 1] \<and> (\<forall>p<n. elem h [p, 0] = g i j p)" by simp
  from Cons.IH [OF this] obtain ts where ts: "laplacian_components hessian u x dm m cs = Inr (map TensorV ts)"
    "length ts = length cs"
    "\<forall>q < length cs. shape (ts ! q) = [n, 1]
                  \<and> (\<forall>p<n. elem (ts ! q) [p, 0] = sum_list (map (\<lambda>j. g (cs ! q) j p) js))" by blast
  have "laplacian_components hessian u x dm m (i # cs) = Inr (map TensorV (r # ts))"
    using r(1) ts(1) assms(2,3) by (simp add: ebind_def)
  moreover have "\<forall>q < length (i # cs). shape ((r # ts) ! q) = [n, 1]
                  \<and> (\<forall>p<n. elem ((r # ts) ! q) [p, 0] = sum_list (map (\<lambda>j. g ((i # cs) ! q) j p) js))"
  proof (intro allI impI)
    fix q assume "q < length (i # cs)"
    then show "shape ((r # ts) ! q) = [n, 1]
                  \<and> (\<forall>p<n. elem ((r # ts) ! q) [p, 0] = sum_list (map (\<lambda>j. g ((i # cs) ! q) j p) js))"
      using r(2,3) ts(3) by (cases q) simp_all
  qed
  ultimately show ?case using ts(2) by (intro exI [of _ "r # ts"]) simp
qed


lemma laplacian_cols_shape1:
  assumes u: "shape u = [n, m]" and x: "shape1 x = Inr k" and m: "0 < m" and dk: "dm < k"
    and h: "\<forall>i<m. \<forall>j. dm \<le> j \<and> j < k \<longrightarrow>
              (\<exists>h. hessian u x (if 1 < m then Some i else None) j j = Inr h
                 \<and> shape h = [n, 1] \<and> (\<forall>p<n. elem h [p, 0] = dxx i j p))"
  shows "\<exists>r. laplacian hessian u x dm = Inr r \<and> shape r = [n, m]
           \<and> (\<forall>p<n. \<forall>i<m. elem r [p, i] = (\<Sum>j = dm..<k. dxx i j p))"
proof -
  have s1: "shape1 u = Inr m" "shape1 x = Inr k" using u x by (simp_all add: shape1_def [of u])
  have ne: "[dm..<k] \<noteq> []" using dk by simp
  have "\<forall>i \<in> set [0..<m]. \<forall>j \<in> set [dm..<k]. \<exists>h. hessian u x (if 1 < m then Some i else None) j j = Inr h
              \<and> shape h = [n, 1] \<and> (\<forall>p<n. elem h [p, 0] = dxx i j p)"
    using h by simp
  then obtain ts where ts: "laplacian_components hessian u x dm m [0..<m] = Inr (map TensorV ts)"
    "length ts = length [0..<m]"
    "\<forall>q < length [0..<m]. shape (ts ! q) = [n, 1]
        \<and> (\<forall>p<n. elem (ts ! q) [p, 0] = sum_list (map (\<lambda>j. dxx ([0..<m] ! q) j p) [dm..<k]))"
    using laplacian_components_cols [where hessian = hessian and u = u and x = x and m = m and n = n
        and g = dxx and k = k and dm = dm and js = "[dm..<k]" and cs = "[0..<m]"] s1(2) ne
    by blast
  have len: "length ts = m" using ts(2) by simp
  have shapes: "\<forall>t \<in> set ts. shape t = [n, Suc 0]"
    using ts(3) len by (auto simp add: in_set_conv_nth)
  have "ts \<noteq> []" using len m by auto
  with shapes obtain r where r: "cat_tensors ts 1 = Inr r" "shape r = [n, length ts]"
      "\<forall>i q. q < length ts \<longrightarrow> elem r [i, q] = elem (ts ! q) [i, 0]"
    using cat_tensors_cols [of ts n] by blast
  have "laplacian hessian u x dm = Inr r"
    using s1(1) ts(1) r(1) by (simp add: laplacian_def ebind_def torch_cat_def as_tensors_map)
  moreover have "\<forall>p<n. \<forall>i<m. elem r [p, i] = (\<Sum>j = dm..<k. dxx i j p)"
  proof (intro allI impI)
    fix p i assume p: "p < n" and i: "i < m"
    have "elem r [p, i] = elem (ts ! i) [p, 0]" using r(3) i len by simp
    also have "\<dots> = sum_list (map (\<lambda>j. dxx i j p) [dm..<k])" using ts(3) i p by simp
    also have "\<dots> = (\<Sum>j = dm..<k. dxx i j p)" by (simp add: interv_sum_list_conv_sum_set_nat)
    finally show "elem r [p, i] = (\<Sum>j = dm..<k. dxx i j p)" .
  qed
  ultimately show ?thesis using r(2) len by simp
qed

lemma laplacian_cols:
  assumes u: "shape u = [n, m]" and x: "shape x = [n', k]" and m: "0 < m" and dk: "dm < k"
    and h: "\<forall>i<m. \<forall>j. dm \<le> j \<and> j < k \<longrightarrow>
              (\<exists>h. hessian u x (if 1 < m then Some i else None) j j = Inr h
                 \<and> shape h = [n, 1] \<and> (\<forall>p<n. elem h [p, 0] = dxx i j p))"
  shows "\<exists>r. laplacian hessian u x dm = Inr r \<and> shape r = [n, m]
           \<and> (\<forall>p<n. \<forall>i<m. elem r [p, i] = (\<Sum>j = dm..<k. dxx i j p))"
proof -
  have "shape1 x = Inr k" using x by (simp add: shape1_def)
  from laplacian_cols_shape1 [where hessian = hessian and dxx = dxx, OF u this m dk h]
  show ?thesis .
qed

lemma laplacian_empty_range:
  assumes u: "shape u = [n, m]" and x: "shape x = [n', k]" and m: "0 < m" and dk: "k \<le> dm"
  shows "laplacian hessian u x dm = Inl TypeError"
proof -
  have s1: "shape1 u = Inr m" "shape1 x = Inr k" using u x by (simp_all add: shape1_def)
  have e: "[dm..<k] = []" using dk by simp
  have "\<exists>vs. laplacian_components hessian u x dm m cs = Inr vs \<and> (cs \<noteq> [] \<longrightarrow> (\<exists>vs'. vs = IntV 0 # vs'))" for cs
    by (induction cs) (auto simp add: ebind_def s1 e)
  from this [of "[0..<m]"] m obtain vs where "laplacian_components hessian u x dm m [0..<m] = Inr (IntV 0 # vs)"
    by auto
  then show ?thesis using s1 by (simp add: laplacian_def ebind_def torch_cat_def)
qed


lemma val_scalar [simp]: "val (scalar r) = r" by (simp add: scalar_def)
lemma tan_scalar [simp]: "tan (scalar r) = 0" by (simp add: scalar_def)
lemma val_detach_elem [simp]: "val (detach_elem a) = val a" by (simp add: detach_elem_def)
lemma tan_detach_elem [simp]: "tan (detach_elem a) = 0" by (simp add: detach_elem_def)
lemma val_zero [simp]: "val 0 = 0" by (simp add: zero_dual_def)
lemma tan_zero [simp]: "tan 0 = 0" by (simp add: zero_dual_def)
lemma val_sum: "val (sum f A) = (\<Sum>a\<in>A. val (f a))"
  by (induction A rule: infinite_finite_induct) simp_all
lemma tan_sum: "tan (sum f A) = (\<Sum>a\<in>A. tan (f a))"
  by (induction A rule: infinite_finite_induct) simp_all

lemma slice_axis1_2d:
  assumes "shape t = [n, m]" and "slice_bounds start stop m = (lo, hi)"
  shows "\<exists>r. slice_axis1 t start stop = Inr r \<and> shape r = [n, hi - lo]
           \<and> (\<forall>p q. elem r [p, q] = elem t [p, q + lo])"
  using assms by (simp add: slice_axis1_def)

lemma broadcast_shapes_col_mat [simp]: "broadcast_shapes [n, Suc 0] [n, k] = Some [n, k]"
  by (auto simp add: broadcast_shapes_def)

lemma broadcast_shapes_same2 [simp]: "broadcast_shapes [n, k] [n, k] = Some [n, k]"
  by (auto simp add: broadcast_shapes_def)

lemma broadcast_index_mat [simp]: "p < n \<Longrightarrow> q < k \<Longrightarrow> broadcast_index [n, k] [p, q] = [p, q]"
  by (auto simp add: broadcast_index_def)

lemma WaveEquation_call_elems:
  assumes x: "shape x = [n, 4]" and o: "shape outputs = [n, 4]"
    and u: "slice_axis1 outputs None (Some (- 1)) = Inr u"
    and h: "\<forall>i<3. \<forall>j. 1 \<le> j \<and> j < 4 \<longrightarrow>
              (\<exists>h. hessian u x (Some i) j j = Inr h
                 \<and> shape h = [n, 1] \<and> (\<forall>p<n. elem h [p, 0] = dxx i j p))"
  shows "\<exists>r. WaveEquation_call hessian self x outputs = Inr r \<and> shape r = [n, 3]
           \<and> (\<forall>p<n. \<forall>i<3. elem r [p, i] =
                 elem outputs [p, 3]
                   * (if detach_flag self then detach_elem (\<Sum>j = 1..<4. dxx i j p) else (\<Sum>j = 1..<4. dxx i j p))
                 + scalar (rho self) * (scalar (2 * pi) * elem x [p, 0]) ^ 2
                   * (if detach_flag self then detach_elem (elem outputs [p, i]) else elem outputs [p, i]))"
proof -
  have b1: "slice_bounds None (Some (- 1)) 4 = (0, 3)" by (simp add: slice_bounds_def)
  have b2: "slice_bounds (Some (- 1)) None 4 = (3, 4)" by (simp add: slice_bounds_def)
  have b3: "slice_bounds None (Some 1) 4 = (0, 1)" by (simp add: slice_bounds_def)
  from slice_axis1_2d [OF o b1] u have us: "shape u = [n, 3]" and ue: "\<forall>p q. elem u [p, q] = elem outputs [p, q]"
    by auto
  from slice_axis1_2d [OF o b2] obtain mu where mu: "slice_axis1 outputs (Some (- 1)) None = Inr mu"
    "shape mu = [n, 1]" "\<forall>p q. elem mu [p, q] = elem outputs [p, q + 3]" by auto
  from slice_axis1_2d [OF x b3] obtain omega where om: "slice_axis1 x None (Some 1) = Inr omega"
    "shape omega = [n, 1]" "\<forall>p q. elem omega [p, q] = elem x [p, q]" by auto
  have "\<forall>i<3. \<forall>j. 1 \<le> j \<and> j < 4 \<longrightarrow>
              (\<exists>h. hessian u x (if 1 < (3::nat) then Some i else None) j j = Inr h
                 \<and> shape h = [n, 1] \<and> (\<forall>p<n. elem h [p, 0] = dxx i j p))"
    using h by simp
  then obtain lap where lap: "laplacian hessian u x 1 = Inr lap" "shape lap = [n, 3]"
     "\<forall>p<n. \<forall>i<3. elem lap [p, i] = (\<Sum>j = 1..<4. dxx i j p)"
    using laplacian_cols [where hessian = hessian and u = u and x = x and n = n and m = 3 and k = 4
        and dm = 1 and dxx = dxx and n' = n] us x
    by auto
  define u' where "u' = (if detach_flag self then detach u else u)"
  define lap' where "lap' = (if detach_flag self then detach lap else lap)"
  have u's: "shape u' = [n, 3]" and lap's: "shape lap' = [n, 3]"
    using us lap(2) by (simp_all add: u'_def lap'_def detach_def)
  have u'e: "\<forall>p q. elem u' [p, q] = (if detach_flag self then detach_elem (elem outputs [p, q]) else elem outputs [p, q])"
    using ue by (simp add: u'_def detach_def)
  have lap'e: "\<forall>p<n. \<forall>i<3. elem lap' [p, i] = (if detach_flag self then detach_elem (\<Sum>j = 1..<4. dxx i j p) else (\<Sum>j = 1..<4. dxx i j p))"
    using lap(3) by (simp add: lap'_def detach_def)
  define w where "w = scalar_mul (rho self) (tensor_pow (scalar_mul (2 * pi) omega) 2)"
  have ws: "shape w = [n, 1]" using om(2) by (simp add: w_def scalar_mul_def tensor_pow_def)
  have we: "\<forall>p q. elem w [p, q] = scalar (rho self) * (scalar (2 * pi) * elem x [p, q]) ^ 2"
    using om(3) by (simp add: w_def scalar_mul_def tensor_pow_def)
  define ds where "ds = \<lparr>shape = [n, 3],
       elem = (\<lambda>idx. elem mu (broadcast_index (shape mu) idx) * elem lap' (broadcast_index (shape lap') idx)),
       requires_grad = (requires_grad mu \<or> requires_grad lap')\<rparr>"
  have ds: "tensor_mul mu lap' = Inr ds"
    using mu(2) lap's by (simp add: tensor_mul_def tensor_binop_def ds_def)
  define f where "f = \<lparr>shape = [n, 3],
       elem = (\<lambda>idx. elem w (broadcast_index (shape w) idx) * elem u' (broadcast_index (shape u') idx)),
       requires_grad = (requires_grad w \<or> requires_grad u')\<rparr>"
  have f: "tensor_mul w u' = Inr f"
    using ws u's by (simp add: tensor_mul_def tensor_binop_def f_def)
  define r where "r = \<lparr>shape = [n, 3],
       elem = (\<lambda>idx. elem ds (broadcast_index (shape ds) idx) + elem f (broadcast_index (shape f) idx)),
       requires_grad = (requires_grad ds \<or> requires_grad f)\<rparr>"
  have r: "tensor_add ds f = Inr r"
    by (simp add: tensor_add_def tensor_binop_def r_def ds_def f_def)
  have call: "WaveEquation_call hessian self x outputs = Inr r"
    unfolding WaveEquation_call_def
    using u mu(1) om(1) lap(1) ds f r
    by (cases "detach_flag self") (simp_all add: ebind_def u'_def lap'_def w_def)
  have "\<forall>p<n. \<forall>i<3. elem r [p, i] =
                 elem outputs [p, 3]
                   * (if detach_flag self then detach_elem (\<Sum>j = 1..<4. dxx i j p) else (\<Sum>j = 1..<4. dxx i j p))
                 + scalar (rho self) * (scalar (2 * pi) * elem x [p, 0]) ^ 2
                   * (if detach_flag self then detach_elem (elem outputs [p, i]) else elem outputs [p, i])"
  proof (intro allI impI)
    fix p i :: nat assume p: "p < n" and i: "i < 3"
    have "elem r [p, i] = elem ds [p, i] + elem f [p, i]"
      using p i by (simp add: r_def ds_def f_def)
    moreover have "elem ds [p, i] = elem mu [p, 0] * elem lap' [p, i]"
      using p i mu(2) lap's by (simp add: ds_def)
    moreover have "elem f [p, i] = elem w [p, 0] * elem u' [p, i]"
      using p i ws u's by (simp add: f_def)
    ultimately show "elem r [p, i] =
                 elem outputs [p, 3]
                   * (if detach_flag self then detach_elem (\<Sum>j = 1..<4. dxx i j p) else (\<Sum>j = 1..<4. dxx i j p))
                 + scalar (rho self) * (scalar (2 * pi) * elem x [p, 0]) ^ 2
                   * (if detach_flag self then detach_elem (elem outputs [p, i]) else elem outputs [p, i])"
      using mu(3) lap'e we u'e p i by simp
  qed
  with call show ?thesis by (simp add: r_def)
qed

lemma sum_1_4: "(\<Sum>j = Suc 0..<4. f j) = f 1 + f 2 + (f 3 :: 'a :: comm_monoid_add)"
proof -
  have "{Suc 0..<4} = {1, 2, 3::nat}" by auto
  then show ?thesis by (simp add: add.assoc)
qed

lemma val_one [simp]: "val 1 = 1" by (simp add: one_dual_def)
lemma tan_one [simp]: "tan 1 = 0" by (simp add: one_dual_def)

lemma val_power: "val (a ^ k) = val a ^ k"
  by (induction k) simp_all

lemma tan_power2: "tan (a ^ 2) = 2 * val a * tan a"
  by (simp add: power2_eq_square)

lemma ex_slice:
  "\<exists>u. slice_axis1 ex_outputs None (Some (- 1)) = Inr u \<and> shape u = [2, 3]"
  by (simp add: slice_axis1_def slice_bounds_def ex_outputs_def)

lemma ex_hessian_ok:
  assumes "shape u = [2, 3]"
  shows "\<forall>i<3. \<forall>j. 1 \<le> j \<and> j < 4 \<longrightarrow>
              (\<exists>h. ex_hessian u ex_x (Some i) j j = Inr h
                 \<and> shape h = [2, 1] \<and> (\<forall>p<2. elem h [p, 0] = ex_dxx i j p))"
  using assms by (simp add: ex_hessian_def ex_x_def)

section \<open>C8: the Laplacian sums the pure second partials\<close>

text \<open>
  C8, as amended. Let \<open>u\<close> have shape N\<times>M with M \<ge> 1 and \<open>x\<close> shape N\<times>K, and let
  \<open>dm < K\<close>. Whenever the Hessian primitive, asked for component \<open>m\<close> (the component
  argument is \<open>None\<close> when M = 1) and the pair \<open>(j, j)\<close>, returns the N\<times>1 column
  \<open>dxx m j\<close> of second partial derivatives, \<open>laplacian u x dm\<close> returns an N\<times>M tensor
  whose column \<open>m\<close> is the sum of \<open>dxx m j\<close> over \<open>j\<close> in \<open>[dm, K)\<close>.
\<close>

theorem laplacian_sums_second_partials:
  assumes "shape u = [n, m]" and "shape x = [n, k]" and "0 < m" and "dm < k"
    and "\<forall>i<m. \<forall>j. dm \<le> j \<and> j < k \<longrightarrow>
              (\<exists>h. hessian u x (if 1 < m then Some i else None) j j = Inr h
                 \<and> shape h = [n, 1] \<and> (\<forall>p<n. elem h [p, 0] = dxx i j p))"
  shows "\<exists>r. laplacian hessian u x dm = Inr r \<and> shape r = [n, m]
           \<and> (\<forall>p<n. \<forall>i<m. elem r [p, i] = (\<Sum>j = dm..<k. dxx i j p))"
  using assms by (rule laplacian_cols)

theorem laplacian_sums_second_partials_witness:
  "(\<exists>r. laplacian ex_hessian ex_outputs ex_x 1 = Inr r \<and> shape r = [2, 4]
      \<and> elem r [0, 0] = Dual 6 3 \<and> elem r [1, 3] = Dual 18 3)
   \<and> (\<exists>r. laplacian ex_hessian ex_column ex_x 1 = Inr r \<and> shape r = [2, 1]
      \<and> elem r [1, 0] = Dual 9 3)"
proof -
  have "\<forall>i<4. \<forall>j. 1 \<le> j \<and> j < 4 \<longrightarrow>
              (\<exists>h. ex_hessian ex_outputs ex_x (if 1 < (4::nat) then Some i else None) j j = Inr h
                 \<and> shape h = [2, 1] \<and> (\<forall>p<2. elem h [p, 0] = ex_dxx i j p))"
    by (simp add: ex_hessian_def ex_outputs_def ex_x_def)
  then obtain r where r: "laplacian ex_hessian ex_outputs ex_x 1 = Inr r" "shape r = [2, 4]"
     "\<forall>p<2. \<forall>i<4. elem r [p, i] = (\<Sum>j = 1..<4. ex_dxx i j p)"
    using laplacian_sums_second_partials [where hessian = ex_hessian and u = ex_outputs and x = ex_x
        and n = 2 and m = 4 and k = 4 and dm = 1 and dxx = ex_dxx]
    by (auto simp add: ex_outputs_def ex_x_def)
  from r(3) have "elem r [0, 0] = Dual 6 3" "elem r [1, 3] = Dual 18 3"
    by (simp_all add: sum_1_4 ex_dxx_def plus_dual_def)
  with r have multi: "\<exists>r. laplacian ex_hessian ex_outputs ex_x 1 = Inr r \<and> shape r = [2, 4]
      \<and> elem r [0, 0] = Dual 6 3 \<and> elem r [1, 3] = Dual 18 3" by blast
  have "\<forall>i<1. \<forall>j. 1 \<le> j \<and> j < 4 \<longrightarrow>
              (\<exists>h. ex_hessian ex_column ex_x (if 1 < (1::nat) then Some i else None) j j = Inr h
                 \<and> shape h = [2, 1] \<and> (\<forall>p<2. elem h [p, 0] = ex_dxx i j p))"
    by (simp add: ex_hessian_def ex_column_def ex_x_def)
  then obtain r' where r': "laplacian ex_hessian ex_column ex_x 1 = Inr r'" "shape r' = [2, 1]"
     "\<forall>p<2. \<forall>i<1. elem r' [p, i] = (\<Sum>j = 1..<4. ex_dxx i j p)"
    using laplacian_sums_second_partials [where hessian = ex_hessian and u = ex_column and x = ex_x
        and n = 2 and m = 1 and k = 4 and dm = 1 and dxx = ex_dxx]
    by (auto simp add: ex_column_def ex_x_def)
  from r'(3) have "elem r' [1, 0] = Dual 9 3"
    by (simp_all add: sum_1_4 ex_dxx_def plus_dual_def)
  with r' have single: "\<exists>r. laplacian ex_hessian ex_column ex_x 1 = Inr r \<and> shape r = [2, 1]
      \<and> elem r [1, 0] = Dual 9 3" by blast
  from multi single show ?thesis by blast
qed

text \<open>
  The claim as stated also covers an empty range \<open>[dm, K)\<close>, for which the sum is
  empty. There \<open>component\<close> is still the Python int 0 when it is appended, and
  \<open>torch.cat\<close> raises TypeError on a list of ints: no tensor is returned.
\<close>

theorem laplacian_empty_range_counterexample:
  "laplacian ex_hessian ex_outputs ex_x 4 = Inl TypeError"
  by (rule laplacian_empty_range [where n = 2 and m = 4 and k = 4 and n' = 2])
     (simp_all add: ex_outputs_def ex_x_def)

section \<open>C1: the residual of the wave equation\<close>

text \<open>
  C1. For \<open>x\<close> of shape N\<times>4 (columns omega, x, y, z) and \<open>outputs\<close> of shape N\<times>4
  (columns ux, uy, uz, mu), calling a \<open>WaveEquation\<close> returns the N\<times>3 tensor whose
  value at row \<open>p\<close>, column \<open>i\<close> is
  \<open>mu\<^sub>p \<cdot> (\<Sum>j=1..3. \<partial>\<^sup>2u\<^sub>i/\<partial>x\<^sub>j\<^sup>2) + rho \<cdot> (2\<pi> \<cdot> omega\<^sub>p)\<^sup>2 \<cdot> u\<^sub>p\<^sub>i\<close>, with \<open>u\<close> the output columns but
  the last, \<open>mu\<close> the last output column, \<open>omega\<close> the first input column, for either
  value of the detach flag; \<open>rho\<close> is the constructor's argument, 1000 when left out.
  The second partials are what the Hessian primitive returns for \<open>u\<close> and \<open>x\<close>.
\<close>

theorem WaveEquation_call_residual:
  assumes "shape x = [n, 4]" and "shape outputs = [n, 4]"
    and "slice_axis1 outputs None (Some (- 1)) = Inr u"
    and "\<forall>i<3. \<forall>j. 1 \<le> j \<and> j < 4 \<longrightarrow>
              (\<exists>h. hessian u x (Some i) j j = Inr h
                 \<and> shape h = [n, 1] \<and> (\<forall>p<n. elem h [p, 0] = dxx i j p))"
  shows "rho (WaveEquation_init dt None dbg) = 1000
       \<and> (\<exists>r. WaveEquation_call hessian self x outputs = Inr r \<and> shape r = [n, 3]
           \<and> (\<forall>p<n. \<forall>i<3. val (elem r [p, i]) =
                 val (elem outputs [p, 3]) * (\<Sum>j = 1..<4. val (dxx i j p))
                 + rho self * (2 * pi * val (elem x [p, 0])) ^ 2 * val (elem outputs [p, i])))"
proof -
  obtain r where r: "WaveEquation_call hessian self x outputs = Inr r" "shape r = [n, 3]"
    "\<forall>p<n. \<forall>i<3. elem r [p, i] =
                 elem outputs [p, 3]
                   * (if detach_flag self then detach_elem (\<Sum>j = 1..<4. dxx i j p) else (\<Sum>j = 1..<4. dxx i j p))
                 + scalar (rho self) * (scalar (2 * pi) * elem x [p, 0]) ^ 2
                   * (if detach_flag self then detach_elem (elem outputs [p, i]) else elem outputs [p, i])"
    using WaveEquation_call_elems [where hessian = hessian and self = self and dxx = dxx, OF assms]
    by blast
  have "\<forall>p<n. \<forall>i<3. val (elem r [p, i]) =
                 val (elem outputs [p, 3]) * (\<Sum>j = 1..<4. val (dxx i j p))
                 + rho self * (2 * pi * val (elem x [p, 0])) ^ 2 * val (elem outputs [p, i])"
    using r(3) by (simp add: val_power val_sum)
  with r(1,2) show ?thesis by (simp add: WaveEquation_init_def)
qed

theorem WaveEquation_call_residual_witness:
  "\<exists>r. WaveEquation_call ex_hessian (WaveEquation_init True None None) ex_x ex_outputs = Inr r
      \<and> shape r = [2, 3] \<and> val (elem r [0, 1]) = 45 + 1000 * (2 * pi) ^ 2 * 3"
proof -
  obtain u where u: "slice_axis1 ex_outputs None (Some (- 1)) = Inr u" "shape u = [2, 3]"
    using ex_slice by blast
  have sx: "shape ex_x = [2, 4]" and so: "shape ex_outputs = [2, 4]"
    by (simp_all add: ex_x_def ex_outputs_def)
  from WaveEquation_call_residual [where hessian = ex_hessian and dxx = ex_dxx
      and self = "WaveEquation_init True None None", OF sx so u(1) ex_hessian_ok [OF u(2)]]
  obtain r where r: "WaveEquation_call ex_hessian (WaveEquation_init True None None) ex_x ex_outputs = Inr r"
    "shape r = [2, 3]"
    "\<forall>p<2. \<forall>i<3. val (elem r [p, i]) =
                 val (elem ex_outputs [p, 3]) * (\<Sum>j = 1..<4. val (ex_dxx i j p))
                 + rho (WaveEquation_init True None None) * (2 * pi * val (elem ex_x [p, 0])) ^ 2
                   * val (elem ex_outputs [p, i])"
    by blast
  from r(3) have "val (elem r [0, 1]) = 45 + 1000 * (2 * pi) ^ 2 * 3"
    by (simp add: sum_1_4 ex_dxx_def ex_outputs_def ex_x_def WaveEquation_init_def)
  with r show ?thesis by blast
qed

section \<open>C7: the detach flag and the gradient of the residual\<close>

text \<open>
  C7. Let \<open>\<theta>\<close> be a parameter of the displacement network: the modulus column and
  the input \<open>x\<close> do not depend on it (their derivatives are 0). When the detach flag
  is true, the derivative with respect to \<open>\<theta>\<close> of every element of the residual is
  exactly 0, so a loss formed from the residual, the mask and the mask level has
  gradient 0 in \<open>\<theta>\<close>. When the flag is false, the derivative of the element at row
  \<open>p\<close>, column \<open>i\<close> is \<open>mu\<^sub>p \<cdot> \<partial>\<^sub>\<theta>(Laplacian u)\<^sub>p\<^sub>i + rho \<cdot> (2\<pi> \<cdot> omega\<^sub>p)\<^sup>2 \<cdot> \<partial>\<^sub>\<theta>u\<^sub>p\<^sub>i\<close>: the
  residual keeps its dependence on the displacement, and the derivative is nonzero
  wherever this expression is.
\<close>

theorem WaveEquation_detach_gradient:
  assumes "shape x = [n, 4]" and "shape outputs = [n, 4]"
    and "slice_axis1 outputs None (Some (- 1)) = Inr u"
    and "\<forall>i<3. \<forall>j. 1 \<le> j \<and> j < 4 \<longrightarrow>
              (\<exists>h. hessian u x (Some i) j j = Inr h
                 \<and> shape h = [n, 1] \<and> (\<forall>p<n. elem h [p, 0] = dxx i j p))"
    and mu0: "\<forall>p<n. tan (elem outputs [p, 3]) = 0"
    and x0: "\<forall>p<n. tan (elem x [p, 0]) = 0"
  shows "\<exists>r. WaveEquation_call hessian self x outputs = Inr r
           \<and> (\<forall>p<n. \<forall>i<3. tan (elem r [p, i]) =
                 (if detach_flag self then 0
                  else val (elem outputs [p, 3]) * (\<Sum>j = 1..<4. tan (dxx i j p))
                     + rho self * (2 * pi * val (elem x [p, 0])) ^ 2 * tan (elem outputs [p, i])))"
proof -
  obtain r where r: "WaveEquation_call hessian self x outputs = Inr r" "shape r = [n, 3]"
    "\<forall>p<n. \<forall>i<3. elem r [p, i] =
                 elem outputs [p, 3]
                   * (if detach_flag self then detach_elem (\<Sum>j = 1..<4. dxx i j p) else (\<Sum>j = 1..<4. dxx i j p))
                 + scalar (rho self) * (scalar (2 * pi) * elem x [p, 0]) ^ 2
                   * (if detach_flag self then detach_elem (elem outputs [p, i]) else elem outputs [p, i])"
    using WaveEquation_call_elems [where hessian = hessian and self = self and dxx = dxx, OF assms(1-4)]
    by blast
  have "\<forall>p<n. \<forall>i<3. tan (elem r [p, i]) =
                 (if detach_flag self then 0
                  else val (elem outputs [p, 3]) * (\<Sum>j = 1..<4. tan (dxx i j p))
                     + rho self * (2 * pi * val (elem x [p, 0])) ^ 2 * tan (elem outputs [p, i]))"
    using r(3) mu0 x0 by (simp add: val_power tan_power2 val_sum tan_sum)
  with r(1) show ?thesis by blast
qed

theorem WaveEquation_detach_gradient_witness:
  "(\<exists>r. WaveEquation_call ex_hessian (WaveEquation_init True None None) ex_x ex_outputs = Inr r
      \<and> tan (elem r [0, 1]) = 0)
   \<and> (\<exists>r. WaveEquation_call ex_hessian (WaveEquation_init False None None) ex_x ex_outputs = Inr r
      \<and> tan (elem r [0, 1]) = 15 + 1000 * (2 * pi) ^ 2)"
proof -
  obtain u where u: "slice_axis1 ex_outputs None (Some (- 1)) = Inr u" "shape u = [2, 3]"
    using ex_slice by blast
  have sx: "shape ex_x = [2, 4]" and so: "shape ex_outputs = [2, 4]"
    by (simp_all add: ex_x_def ex_outputs_def)
  have mu0: "\<forall>p<2. tan (elem ex_outputs [p, 3]) = 0" by (simp add: ex_outputs_def)
  have x0: "\<forall>p<2. tan (elem ex_x [p, 0]) = 0" by (simp add: ex_x_def)
  note inst = WaveEquation_detach_gradient [where hessian = ex_hessian and dxx = ex_dxx,
      OF sx so u(1) ex_hessian_ok [OF u(2)] mu0 x0]
  from inst [of "WaveEquation_init True None None"]
  obtain r where r: "WaveEquation_call ex_hessian (WaveEquation_init True None None) ex_x ex_outputs = Inr r"
    "tan (elem r [0, 1]) = 0"
    by (auto simp add: WaveEquation_init_def)
  from inst [of "WaveEquation_init False None None"]
  obtain r' where r': "WaveEquation_call ex_hessian (WaveEquation_init False None None) ex_x ex_outputs = Inr r'"
    "tan (elem r' [0, 1]) = 15 + 1000 * (2 * pi) ^ 2"
    by (auto simp add: WaveEquation_init_def sum_1_4 ex_dxx_def ex_outputs_def ex_x_def)
  from r r' show ?thesis by blast
qed

section \<open>Properties of \<open>get_tensors\<close>\<close>

lemma get_tensors_patch_raises:
  "get_tensors float32 self idx (Some p) \<noteq> Inr r"
  by (auto simp add: get_tensors_def ebind_def Let_def split: sum.splits)

lemma arrays_values_a_sequences:
  assumes "arrays p ''t1_pre_in'' = Some a1" "arrays p ''t1_pre_out'' = Some a2"
    "arrays p ''t1_pre_water'' = Some a3" "arrays p ''t1_pre_fat'' = Some a4"
  shows "arrays_values p a_sequences = Inr [data_values a1, data_values a2, data_values a3, data_values a4]"
  using assms by (simp add: a_sequences_def arrays_get_def ebind_def)

lemma cat_three_last:
  assumes "shape u = s @ [1]" "shape m = s @ [1]" "shape k = s @ [1]"
  shows "\<exists>t. cat_tensors [u, m, k] (- 1) = Inr t \<and> shape t = s @ [3]
           \<and> (\<forall>i. length i = length s \<longrightarrow>
                 elem t (i @ [0]) = elem u (i @ [0]) \<and> elem t (i @ [1]) = elem m (i @ [0])
               \<and> elem t (i @ [2]) = elem k (i @ [0]))"
proof -
  have nd: "norm_dim (- 1) (length (shape u)) = Inr (length s)"
    using assms(1) by (simp add: norm_dim_def)
  have "cat_tensors [u, m, k] (- 1) = Inr \<lparr>shape = s @ [3], elem = cat_elem [u, m, k] (length s),
            requires_grad = list_ex requires_grad [u, m, k]\<rparr>"
    using assms nd by (simp add: cat_tensors_def ebind_def)
  moreover have "\<forall>i. length i = length s \<longrightarrow>
                 cat_elem [u, m, k] (length s) (i @ [0]) = elem u (i @ [0])
               \<and> cat_elem [u, m, k] (length s) (i @ [1]) = elem m (i @ [0])
               \<and> cat_elem [u, m, k] (length s) (i @ [2]) = elem k (i @ [0])"
    using assms by (auto simp add: nth_append list_update_append)
  ultimately show ?thesis by simp
qed

lemma get_tensors_None:
  assumes idx: "idx < length (cohort self)"
    and a: "arrays (cohort self ! idx) ''t1_pre_in'' = Some a1"
      "arrays (cohort self ! idx) ''t1_pre_out'' = Some a2"
      "arrays (cohort self ! idx) ''t1_pre_water'' = Some a3"
      "arrays (cohort self ! idx) ''t1_pre_fat'' = Some a4"
    and stack: "nshape (data_values a2) = nshape (data_values a1)"
      "nshape (data_values a3) = nshape (data_values a1)"
      "nshape (data_values a4) = nshape (data_values a1)"
    and w: "arrays (cohort self ! idx) ''wave'' = Some wave"
    and m: "arrays (cohort self ! idx) ''mre'' = Some mre"
    and k: "arrays (cohort self ! idx) ''mre_mask'' = Some mre_mask"
    and sh: "nshape (data_values wave) = s" "nshape (data_values mre) = s"
      "nshape (data_values mre_mask) = s"
  shows "\<exists>target.
      get_tensors float32 self idx None =
        Inr ([torch_tensor (expand_last (data_values wave)) (device self) float32,
              torch_tensor (np_scale (field_points wave) (1 / 1000)) (device self) float32],
             target, [])
    \<and> shape target = s @ [3]
    \<and> (\<forall>i. length i = length s \<longrightarrow>
           elem target (i @ [0]) = scalar (float32 (item (data_values wave) i))
         \<and> elem target (i @ [1]) = scalar (float32 (item (data_values mre) i))
         \<and> elem target (i @ [2]) = scalar (float32 (item (data_values mre_mask) i)))"
proof -
  let ?u = "torch_tensor (expand_last (data_values wave)) (device self) float32"
  let ?mu = "torch_tensor (expand_last (data_values mre)) (device self) float32"
  let ?mask = "torch_tensor (expand_last (data_values mre_mask)) (device self) float32"
  have shapes: "shape ?u = s @ [1]" "shape ?mu = s @ [1]" "shape ?mask = s @ [1]"
    using sh by (simp_all add: torch_tensor_def expand_last_def)
  from cat_three_last [OF shapes] obtain target where t:
    "cat_tensors [?u, ?mu, ?mask] (- 1) = Inr target" "shape target = s @ [3]"
    "\<forall>i. length i = length s \<longrightarrow>
                 elem target (i @ [0]) = elem ?u (i @ [0]) \<and> elem target (i @ [1]) = elem ?mu (i @ [0])
               \<and> elem target (i @ [2]) = elem ?mask (i @ [0])" by blast
  have av: "arrays_values (cohort self ! idx) a_sequences
      = Inr [data_values a1, data_values a2, data_values a3, data_values a4]"
    using a by (rule arrays_values_a_sequences)
  obtain st where st: "np_stack_last [data_values a1, data_values a2, data_values a3, data_values a4] = Inr st"
    using stack by (simp add: np_stack_last_def)
  have "get_tensors float32 self idx None
      = Inr ([?u, torch_tensor (np_scale (field_points wave) (1 / 1000)) (device self) float32], target, [])"
    using idx av st w m k t(1)
    by (simp add: get_tensors_def cohort_get_def arrays_get_def ebind_def)
  moreover have "\<forall>i. length i = length s \<longrightarrow>
           elem target (i @ [0]) = scalar (float32 (item (data_values wave) i))
         \<and> elem target (i @ [1]) = scalar (float32 (item (data_values mre) i))
         \<and> elem target (i @ [2]) = scalar (float32 (item (data_values mre_mask) i))"
    using t(3) by (simp add: torch_tensor_def expand_last_def)
  ultimately show ?thesis using t(2) by blast
qed

lemma ex_data_fields:
  "cohort ex_data = ex_cohort" "device ex_data = ''cuda''" "patch_size ex_data = None"
  "batch_size ex_data = None" "mask_level ex_data = 1" "pde ex_data = ex_pde"
  by (simp_all add: ex_data_def PINOData_init_def)

lemma ex_patient_arrays:
  "arrays (ex_patient c) ''t1_pre_in'' = Some (ex_data_array (c + 1))"
  "arrays (ex_patient c) ''t1_pre_out'' = Some (ex_data_array (c + 2))"
  "arrays (ex_patient c) ''t1_pre_water'' = Some (ex_data_array (c + 3))"
  "arrays (ex_patient c) ''t1_pre_fat'' = Some (ex_data_array (c + 4))"
  "arrays (ex_patient c) ''wave'' = Some (ex_data_array (c + 16777214))"
  "arrays (ex_patient c) ''mre'' = Some (ex_data_array (c + 6))"
  "arrays (ex_patient c) ''mre_mask'' = Some (ex_data_array (c + 7))"
  by (simp_all add: ex_patient_def)

lemma floor_log2:
  assumes "2 powr real_of_int k \<le> x" and "x < 2 powr real_of_int (k + 1)"
  shows "\<lfloor>log 2 x\<rfloor> = k"
proof -
  have "(0::real) < 2 powr real_of_int k" by simp
  with assms(1) have x: "0 < x" by linarith
  have "real_of_int k \<le> log 2 x" using assms(1) x by (simp add: le_log_iff)
  moreover have "log 2 x < real_of_int (k + 1)" using assms(2) x by (simp add: log_less_iff)
  ultimately show ?thesis by linarith
qed

lemma ex_float32_values:
  "ex_float32 16777217 = 16777216" "ex_float32 9 = 9" "ex_float32 10 = 10"
  "ex_float32 (1 / 10) = 13421773 / 134217728"
proof -
  have "\<lfloor>log 2 \<bar>16777217::real\<bar>\<rfloor> = 24"
    using floor_log2 [of 24 16777217] by (simp add: powr_realpow)
  then show "ex_float32 16777217 = 16777216"
    by (simp add: ex_float32_def Let_def powr_minus powr_realpow)
  have "\<lfloor>log 2 \<bar>9::real\<bar>\<rfloor> = 3" using floor_log2 [of 3 9] by (simp add: powr_realpow)
  then show "ex_float32 9 = 9"
    by (simp add: ex_float32_def Let_def powr_minus powr_realpow)
  have "\<lfloor>log 2 \<bar>10::real\<bar>\<rfloor> = 3" using floor_log2 [of 3 10] by (simp add: powr_realpow)
  then show "ex_float32 10 = 10"
    by (simp add: ex_float32_def Let_def powr_minus powr_realpow)
  have "\<lfloor>log 2 \<bar>1 / 10 :: real\<bar>\<rfloor> = - 4"
    using floor_log2 [of "- 4" "1 / 10"] by (simp add: powr_minus powr_realpow)
  then show "ex_float32 (1 / 10) = 13421773 / 134217728"
    by (simp add: ex_float32_def Let_def powr_minus powr_realpow)
qed


section \<open>C9: the inputs and targets of \<open>get_tensors\<close>\<close>

text \<open>
  C9. For a patient index in range whose patient has the four \<open>t1_pre\<close> arrays (of
  one shape, so that they stack) and the arrays \<open>wave\<close>, \<open>mre\<close> and \<open>mre_mask\<close> (of one
  shape \<open>s\<close>), \<open>get_tensors\<close> without a patch size returns as inputs the pair of the
  wave displacement, with a last axis of extent 1 added, and the coordinates of
  the wave array multiplied by 1e-3, each element converted to float32; as
  targets the tensor of shape \<open>s @ [3]\<close> whose channels 0, 1 and 2 along the last
  axis are the displacement, the elastogram and the mask, converted to float32;
  and as auxiliary component the empty tuple. No tensor requires gradients. The
  anatomical stack is built from the four \<open>t1_pre\<close> arrays but occurs in no
  component of the result.
\<close>

theorem get_tensors_inputs_targets:
  assumes "idx < length (cohort self)"
    and "arrays (cohort self ! idx) ''t1_pre_in'' = Some a1"
      "arrays (cohort self ! idx) ''t1_pre_out'' = Some a2"
      "arrays (cohort self ! idx) ''t1_pre_water'' = Some a3"
      "arrays (cohort self ! idx) ''t1_pre_fat'' = Some a4"
    and "nshape (data_values a2) = nshape (data_values a1)"
      "nshape (data_values a3) = nshape (data_values a1)"
      "nshape (data_values a4) = nshape (data_values a1)"
    and "arrays (cohort self ! idx) ''wave'' = Some wave"
    and "arrays (cohort self ! idx) ''mre'' = Some mre"
    and "arrays (cohort self ! idx) ''mre_mask'' = Some mre_mask"
    and "nshape (data_values wave) = s" "nshape (data_values mre) = s"
      "nshape (data_values mre_mask) = s"
  shows "\<exists>target.
      get_tensors float32 self idx None =
        Inr ([\<lparr>shape = s @ [1],
               elem = (\<lambda>i. scalar (float32 (item (data_values wave) (butlast i)))),
               requires_grad = False\<rparr>,
              \<lparr>shape = nshape (field_points wave),
               elem = (\<lambda>i. scalar (float32 (item (field_points wave) i * (1 / 1000)))),
               requires_grad = False\<rparr>],
             target, [])
    \<and> shape target = s @ [3]
    \<and> (\<forall>i. length i = length s \<longrightarrow>
           elem target (i @ [0]) = scalar (float32 (item (data_values wave) i))
         \<and> elem target (i @ [1]) = scalar (float32 (item (data_values mre) i))
         \<and> elem target (i @ [2]) = scalar (float32 (item (data_values mre_mask) i)))"
  using get_tensors_None [OF assms, of float32] assms(12)
  by (simp add: torch_tensor_def expand_last_def np_scale_def)

theorem get_tensors_inputs_targets_witness:
  "\<exists>u x target. get_tensors ex_float32 ex_data 0 None = Inr ([u, x], target, [])
     \<and> shape u = [2, 2, 1, 1] \<and> elem u [1, 1, 0, 0] = scalar 16777216
     \<and> shape x = [2, 2, 1, 3] \<and> elem x [1, 1, 0, 1] = scalar (13421773 / 134217728)
     \<and> shape target = [2, 2, 1, 3]
     \<and> elem target [1, 1, 0, 0] = scalar 16777216 \<and> elem target [1, 1, 0, 1] = scalar 9
     \<and> elem target [1, 1, 0, 2] = scalar 10"
proof -
  have c: "cohort ex_data ! 0 = ex_patient 0" "0 < length (cohort ex_data)"
    by (simp_all add: ex_data_fields ex_cohort_def)
  obtain target where t: "get_tensors ex_float32 ex_data 0 None =
        Inr ([\<lparr>shape = [2, 2, 1] @ [1],
               elem = (\<lambda>i. scalar (ex_float32 (item (data_values (ex_data_array 16777214)) (butlast i)))),
               requires_grad = False\<rparr>,
              \<lparr>shape = nshape (field_points (ex_data_array 16777214)),
               elem = (\<lambda>i. scalar (ex_float32 (item (field_points (ex_data_array 16777214)) i * (1 / 1000)))),
               requires_grad = False\<rparr>],
             target, [])"
    "shape target = [2, 2, 1] @ [3]"
    "\<forall>i. length i = length [2, 2, 1 :: nat] \<longrightarrow>
           elem target (i @ [0]) = scalar (ex_float32 (item (data_values (ex_data_array 16777214)) i))
         \<and> elem target (i @ [1]) = scalar (ex_float32 (item (data_values (ex_data_array 6)) i))
         \<and> elem target (i @ [2]) = scalar (ex_float32 (item (data_values (ex_data_array 7)) i))"
    using get_tensors_inputs_targets [where self = ex_data and idx = 0 and s = "[2, 2, 1]"
        and ?float32.0 = ex_float32
        and ?a1.0 = "ex_data_array 1" and ?a2.0 = "ex_data_array 2" and ?a3.0 = "ex_data_array 3"
        and ?a4.0 = "ex_data_array 4" and wave = "ex_data_array 16777214" and mre = "ex_data_array 6"
        and mre_mask = "ex_data_array 7"] c ex_patient_arrays [of 0]
    by (auto simp add: ex_data_array_def ex_array_def)
  from t(3) [rule_format, of "[1, 1, 0]"]
  have "elem target [1, 1, 0, 0] = scalar 16777216 \<and> elem target [1, 1, 0, 1] = scalar 9
     \<and> elem target [1, 1, 0, 2] = scalar 10"
    by (simp add: ex_data_array_def ex_array_def ex_float32_values)
  with t(1,2) show ?thesis
    by (simp add: ex_data_array_def ex_array_def ex_points_def ex_float32_values)
qed

section \<open>C2: \<open>get_tensors\<close> with a patch size\<close>

text \<open>
  C2. The claim is that, with a patch size P set, \<open>get_tensors\<close> crops one P\<times>P
  window, at a random origin within the valid range, from every channel. The code
  does not: on the three-patient example cohort, whose arrays have extent 2 on
  the leading two axes, \<open>get_tensors(0, 2)\<close> raises \<open>NameError\<close> for the unbound name
  \<open>y\<close>, as it does for every index and patch size that reach the branch.
\<close>

theorem get_tensors_patch_NameError:
  "get_tensors float32 ex_data 0 (Some 2) = Inl (NameError ''y'')"
  by (simp add: get_tensors_def ex_data_fields ex_cohort_def cohort_get_def a_sequences_def
      arrays_get_def ex_patient_arrays ebind_def np_stack_last_def ex_data_array_def ex_array_def)

section \<open>Properties of \<open>losses\<close> and \<open>predict\<close>\<close>

lemma torch_split_last_three:
  assumes "shape t \<noteq> []" and "last (shape t) = 3"
  shows "torch_split_last t 1 = Inr [chunk t 0, chunk t 1, chunk t 2]"
proof -
  have u: "[0..<3] = [0, 1, 2]" by (simp add: upt_rec)
  show ?thesis
    using assms by (simp add: torch_split_last_def chunk_def Let_def u)
qed

text \<open>
  With the class \<open>WaveEquation\<close> as the PDE object, \<open>losses\<close> raises TypeError on
  every three-channel targets tensor, once the two data losses are computed.
\<close>

lemma losses_WaveEquation_TypeError:
  assumes "shape targets \<noteq> []" and "last (shape targets) = 3"
    and "inputs = [a, x]" and "take 2 outputs = [u_pred, mu_pred]"
    and "pde self = WaveEquation_object hessian w"
    and "loss_fn (TensorV (chunk targets 0)) u_pred (chunk targets 2) (mask_level self) = Inr u_loss"
    and "loss_fn (TensorV (chunk targets 1)) mu_pred (chunk targets 2) (mask_level self) = Inr mu_loss"
  shows "losses self targets outputs loss_fn inputs model aux = Inl TypeError"
  using assms torch_split_last_three [of targets]
  by (simp add: losses_def ebind_def WaveEquation_object_def)

text \<open>With the class \<open>WaveEquation\<close> as the PDE object, \<open>losses\<close> returns on no input.\<close>

lemma losses_WaveEquation_raises:
  assumes "pde self = WaveEquation_object hessian w"
  shows "losses self targets outputs loss_fn inputs model aux \<noteq> Inr r"
  using assms
  by (auto simp add: losses_def ebind_def WaveEquation_object_def
      split: sum.splits list.splits)

lemma train_next_batch_mask_level:
  "mask_level (snd (train_next_batch get_next float32 self b r)) = mask_level self"
  by (simp add: train_next_batch_def Let_def split: sum.splits prod.splits)

lemma reachable_mask_level:
  "reachable new_sampler get_next float32 self \<Longrightarrow> mask_level self = 1"
  by (induction rule: reachable.induct)
     (simp_all add: PINOData_init_def train_next_batch_mask_level PINOData_test_def)

lemma losses_mask_level:
  "losses self targets outputs loss_fn inputs model aux
     = losses self targets outputs (\<lambda>t p m s. loss_fn t p m (mask_level self)) inputs model aux"
  by (simp add: losses_def)

text \<open>
  With the class \<open>WaveEquation\<close> as the PDE object, \<open>predict\<close> returns on no input,
  and raises AttributeError whenever the forward pass and the Laplacian return.
\<close>

lemma predict_WaveEquation_raises:
  assumes "pde (data self) = WaveEquation_object hessian' w"
  shows "predict hessian self a x \<noteq> Inr r"
  using assms
  by (auto simp add: predict_def ebind_def Let_def WaveEquation_object_def
      split: sum.splits list.splits option.splits)

lemma predict_WaveEquation_AttributeError:
  assumes "pde (data self) = WaveEquation_object hessian' w"
    and "forward (net self) [a, x\<lparr>requires_grad := True\<rparr>] True = Inr [u_pred, mu_pred]"
    and "laplacian hessian u_pred (x\<lparr>requires_grad := True\<rparr>) 0 = Inr lu_pred"
  shows "predict hessian self a x = Inl (AttributeError ''traction_and_body_forces'')"
  using assms by (simp add: predict_def ebind_def Let_def WaveEquation_object_def)

lemma laplacian_returns:
  assumes u: "shape1 u = Inr m" and x: "shape1 x = Inr k" and m: "0 < m" and dk: "dm < k"
    and h: "\<forall>i<m. \<forall>j. dm \<le> j \<and> j < k \<longrightarrow>
              (\<exists>h. hessian u x (if 1 < m then Some i else None) j j = Inr h
                 \<and> shape h = [n, 1] \<and> (\<forall>p<n. elem h [p, 0] = dxx i j p))"
  shows "\<exists>r. laplacian hessian u x dm = Inr r \<and> shape r = [n, m]"
proof -
  have ne: "[dm..<k] \<noteq> []" using dk by simp
  have "\<forall>i \<in> set [0..<m]. \<forall>j \<in> set [dm..<k]. \<exists>h. hessian u x (if 1 < m then Some i else None) j j = Inr h
              \<and> shape h = [n, 1] \<and> (\<forall>p<n. elem h [p, 0] = dxx i j p)"
    using h by simp
  then obtain ts where ts: "laplacian_components hessian u x dm m [0..<m] = Inr (map TensorV ts)"
    "length ts = length [0..<m]"
    "\<forall>q < length [0..<m]. shape (ts ! q) = [n, 1]
        \<and> (\<forall>p<n. elem (ts ! q) [p, 0] = sum_list (map (\<lambda>j. dxx ([0..<m] ! q) j p) [dm..<k]))"
    using laplacian_components_cols [where hessian = hessian and u = u and x = x and m = m and n = n
        and g = dxx and k = k and dm = dm and js = "[dm..<k]" and cs = "[0..<m]"] x ne
    by blast
  have len: "length ts = m" using ts(2) by simp
  have shapes: "\<forall>t \<in> set ts. shape t = [n, Suc 0]"
    using ts(3) len by (auto simp add: in_set_conv_nth)
  have "ts \<noteq> []" using len m by auto
  with shapes obtain r where r: "cat_tensors ts 1 = Inr r" "shape r = [n, length ts]"
    using cat_tensors_cols [of ts n] by blast
  have "laplacian hessian u x dm = Inr r"
    using u ts(1) r(1) by (simp add: laplacian_def ebind_def torch_cat_def as_tensors_map)
  then show ?thesis using r(2) len by simp
qed

lemma ex_model_fields:
  "net ex_model = ex_net" "pde (data ex_model) = ex_pde" "data ex_model = ex_data"
  by (simp_all add: ex_model_def PINOModel_init_def PINOData_init_def ex_data_def)

text \<open>The example network's displacement has a Laplacian under the example Hessian primitive.\<close>

lemma ex_laplacian_returns:
  assumes "2 \<le> length (shape x)" and "0 < shape x ! 1"
  shows "\<exists>lu. laplacian ex_hessian (ex_prediction x c) x 0 = Inr lu"
proof -
  obtain n k rest where sx: "shape x = n # k # rest"
    using assms(1) by (cases "shape x"; cases "tl (shape x)") auto
  have k: "0 < k" using assms(2) sx by simp
  define m where "m = (if rest = [] then 1 else k)"
  have su: "shape1 (ex_prediction x c) = Inr m" "shape (ex_prediction x c) ! 1 = m"
    by (simp_all add: ex_prediction_def shape1_def sx m_def nth_append)
  have m: "0 < m" using k by (simp add: m_def)
  have "\<forall>i<m. \<forall>j. 0 \<le> j \<and> j < k \<longrightarrow>
              (\<exists>h. ex_hessian (ex_prediction x c) x (if 1 < m then Some i else None) j j = Inr h
                 \<and> shape h = [n, 1] \<and> (\<forall>p<n. elem h [p, 0] = ex_dxx (if 1 < m then i else 0) j p))"
    using su(2) m by (auto simp add: ex_hessian_def sx)
  then show ?thesis
    using laplacian_returns [where hessian = ex_hessian and u = "ex_prediction x c" and x = x
        and m = m and k = k and dm = 0 and n = n and dxx = "\<lambda>i. ex_dxx (if 1 < m then i else 0)"]
      su(1) m k
    by (auto simp add: shape1_def sx)
qed

section \<open>C3: the three losses\<close>

text \<open>
  C3. The claim is that \<open>losses\<close> returns the ordered triple of the displacement
  loss, the modulus loss and the loss of the PDE residual against zero. The code
  does not, with the PDE class of the repository: on a data object whose PDE is a
  \<open>WaveEquation\<close>, a targets tensor of three channels, outputs \<open>(u_pred, mu_pred)\<close> and
  a loss function that returns, \<open>losses\<close> computes the first two terms and then
  raises TypeError, because it calls the PDE object with the three arguments
  \<open>(x, u_pred, mu_pred)\<close> and \<open>WaveEquation.__call__\<close> takes the two arguments
  \<open>(x, outputs)\<close>. No triple is returned.
\<close>

theorem losses_WaveEquation_call_TypeError:
  "losses ex_data ex_targets [ex_column, ex_column] ex_loss_fn [a, ex_x] model aux = Inl TypeError"
  by (simp add: losses_def ebind_def torch_split_last_def Let_def upt_rec ex_targets_def
      ex_loss_fn_def ex_data_fields ex_pde_def WaveEquation_object_def)

section \<open>C10: the mask level\<close>

text \<open>
  C10. The constructor sets the mask level of a \<open>PINOData\<close> object to 1.0 and no
  operation of the object changes it: in every state the object can reach the
  mask level is 1, and \<open>losses\<close> passes 1 as the mask strength in each of its calls
  of the caller's loss function (its result is that of \<open>losses\<close> run with the loss
  function whose strength argument is fixed to 1).
\<close>

theorem mask_level_fixed:
  assumes "reachable new_sampler get_next float32 self"
  shows "mask_level self = 1
       \<and> losses self targets outputs loss_fn inputs model aux
           = losses self targets outputs (\<lambda>t p m s. loss_fn t p m 1) inputs model aux"
  using reachable_mask_level [OF assms]
    losses_mask_level [of self targets outputs loss_fn inputs model aux]
  by simp

theorem mask_level_fixed_witness:
  "mask_level (snd (PINOData_test (BatchSampler_get_next ex_shuffle) ex_float32
       (snd (train_next_batch (BatchSampler_get_next ex_shuffle) ex_float32 ex_data (Some 2) False))
       True)) = 1"
proof -
  have "reachable (BatchSampler_init ex_shuffle 1) (BatchSampler_get_next ex_shuffle) ex_float32 ex_data"
    unfolding ex_data_def by (rule reachable_init)
  then have "reachable (BatchSampler_init ex_shuffle 1) (BatchSampler_get_next ex_shuffle) ex_float32
      (snd (PINOData_test (BatchSampler_get_next ex_shuffle) ex_float32
       (snd (train_next_batch (BatchSampler_get_next ex_shuffle) ex_float32 ex_data (Some 2) False))
       True))"
    by (intro reachable_test reachable_train_next_batch)
  from mask_level_fixed [OF this, where loss_fn = ex_loss_fn and model = "()" and aux = "None :: unit option"]
  show ?thesis by blast
qed

section \<open>C4: \<open>predict\<close>\<close>

text \<open>
  C4. The claim is that \<open>predict(a, x)\<close> returns the predictions, the Laplacian and
  the traction and body-force components. The code does not, with the PDE class
  of the repository: on a model whose PDE is a \<open>WaveEquation\<close>, with a network
  whose forward pass returns and a coordinate tensor of four columns, \<open>predict\<close>
  sets \<open>requires_grad\<close>, runs the forward pass, computes the Laplacian and then
  raises AttributeError, because \<open>WaveEquation\<close> has no method
  \<open>traction_and_body_forces\<close>. Nothing is returned.
\<close>

theorem predict_WaveEquation_no_traction:
  "predict ex_hessian ex_model a (detach ex_x) = Inl (AttributeError ''traction_and_body_forces'')"
proof -
  let ?x = "(detach ex_x)\<lparr>requires_grad := True\<rparr>"
  have "\<exists>lu. laplacian ex_hessian (ex_prediction ?x 5) ?x 0 = Inr lu"
    by (rule ex_laplacian_returns) (simp_all add: detach_def ex_x_def)
  then obtain lu where lu: "laplacian ex_hessian (ex_prediction ?x 5) ?x 0 = Inr lu" by blast
  have f: "forward (net ex_model) [a, ?x] True = Inr [ex_prediction ?x 5, ex_prediction ?x 7]"
    by (simp add: ex_model_fields ex_net_def)
  have p: "pde (data ex_model) = WaveEquation_object ex_hessian (WaveEquation_init True None None)"
    by (simp add: ex_model_fields(2) ex_pde_def)
  from predict_WaveEquation_AttributeError [OF p f lu] show ?thesis .
qed

section \<open>Properties of the batch pipeline and of the sampler\<close>

lemma get_tensors_sampler [simp]:
  "get_tensors float32 (self\<lparr>batch_sampler := s\<rparr>) idx ps = get_tensors float32 self idx ps"
  by (simp add: get_tensors_def cong: option.case_cong)

lemma batch_tensors_rows:
  assumes "\<forall>i \<in> set inds. get_tensors float32 self i (patch_size self) = Inr ([U i, X i], T i, [])"
  shows "batch_tensors float32 self inds
           = Inr (map (\<lambda>i. [U i, X i]) inds, map T inds, map (\<lambda>i. []) inds)"
  using assms by (induction inds) (simp_all add: ebind_def)

lemma fold_min_same: "fold min (map (\<lambda>x. n) xs) (n::nat) = n"
  by (induction xs) simp_all

lemma zip_star_pairs:
  assumes "inds \<noteq> []"
  shows "zip_star (map (\<lambda>i. [U i, X i]) inds) = [map U inds, map X inds]"
proof -
  from assms obtain i rest where inds: "inds = i # rest" by (cases inds) auto
  show ?thesis
    unfolding inds zip_star_def by (simp add: o_def fold_min_same upt_rec)
qed

lemma zip_star_empty_rows: "zip_star (map (\<lambda>i. []) inds) = []"
  by (cases inds) (simp_all add: zip_star_def o_def fold_min_same)

lemma torch_stack_same_shape:
  assumes "inds \<noteq> []" and "\<forall>i \<in> set inds. shape (F i) = s"
  shows "\<exists>t. torch_stack (map F inds) = Inr t \<and> shape t = length inds # s
           \<and> (\<forall>k idx. elem t (k # idx) = elem (F (inds ! k)) idx \<or> length inds \<le> k)"
proof -
  from assms obtain i rest where inds: "inds = i # rest" by (cases inds) auto
  have "list_all (\<lambda>t'. shape t' = shape (F i)) (map F inds)"
    using assms(2) inds by (simp add: list_all_iff)
  then have "torch_stack (map F inds) = Inr \<lparr>shape = length inds # s,
        elem = (\<lambda>idx. elem (map F inds ! hd idx) (tl idx)),
        requires_grad = list_ex requires_grad (map F inds)\<rparr>"
    using assms(2) unfolding inds torch_stack_def by simp
  then show ?thesis by (auto simp add: not_le)
qed

lemma train_next_batch_returns:
  assumes gn: "get_next (batch_sampler self) (py_or b (batch_size self)) = Inr (inds, s')"
    and ne: "inds \<noteq> []"
    and gt: "\<forall>i \<in> set inds. get_tensors float32 self i (patch_size self) = Inr ([U i, X i], T i, [])"
    and sh: "\<forall>i \<in> set inds. shape (U i) = su" "\<forall>i \<in> set inds. shape (X i) = sx"
      "\<forall>i \<in> set inds. shape (T i) = st"
  shows "\<exists>u x t. (\<forall>ri. train_next_batch get_next float32 self b ri
           = (Inr ([u, x], t, [], if ri then Some inds else None), self\<lparr>batch_sampler := s'\<rparr>))
         \<and> torch_stack (map U inds) = Inr u \<and> torch_stack (map X inds) = Inr x
         \<and> torch_stack (map T inds) = Inr t"
proof -
  obtain u where u: "torch_stack (map U inds) = Inr u"
    using torch_stack_same_shape [OF ne sh(1)] by blast
  obtain x where x: "torch_stack (map X inds) = Inr x"
    using torch_stack_same_shape [OF ne sh(2)] by blast
  obtain t where t: "torch_stack (map T inds) = Inr t"
    using torch_stack_same_shape [OF ne sh(3)] by blast
  have bt: "batch_tensors float32 (self\<lparr>batch_sampler := s'\<rparr>) inds
      = Inr (map (\<lambda>i. [U i, X i]) inds, map T inds, map (\<lambda>i. []) inds)"
    by (rule batch_tensors_rows) (simp add: gt)
  have "train_next_batch get_next float32 self b ri
           = (Inr ([u, x], t, [], if ri then Some inds else None), self\<lparr>batch_sampler := s'\<rparr>)" for ri
    using gn bt u x t
    by (simp add: train_next_batch_def Let_def ebind_def zip_star_pairs [OF ne] zip_star_empty_rows)
  with u x t show ?thesis by blast
qed

lemma perm_range_set:
  assumes "mset xs = mset [0..<n]"
  shows "set xs = {0..<n}" and "length xs = n" and "distinct xs"
proof -
  from assms have "set_mset (mset xs) = set_mset (mset [0..<n])" by simp
  then show "set xs = {0..<n}" by simp
  from assms have "size (mset xs) = size (mset [0..<n])" by simp
  then show "length xs = n" by simp
  from assms show "distinct xs" by (metis distinct_upt mset_eq_imp_distinct_iff)
qed

lemma BatchSampler_init_inv:
  assumes "\<forall>g xs. mset (fst (np_shuffle g xs)) = mset xs"
  shows "sampler_inv n (BatchSampler_init np_shuffle g n True)"
    and "index_in_epoch (BatchSampler_init np_shuffle g n True) = 0"
    and "epochs_completed (BatchSampler_init np_shuffle g n True) = 0"
    and "indices (BatchSampler_init np_shuffle g n True) = fst (np_shuffle g [0..<n])"
    and "generator (BatchSampler_init np_shuffle g n True) = snd (np_shuffle g [0..<n])"
  using assms [rule_format, of g "[0..<n]"]
  by (auto simp add: sampler_inv_def BatchSampler_init_def split: prod.splits)

lemma orderings_perms:
  assumes "\<forall>g xs. mset (fst (np_shuffle g xs)) = mset xs"
  shows "mset xs = mset ys \<Longrightarrow> \<forall>p \<in> set (orderings np_shuffle g xs e). mset p = mset ys"
proof (induction e arbitrary: g xs)
  case 0
  then show ?case by simp
next
  case (Suc e)
  have "mset (fst (np_shuffle g xs)) = mset ys"
    using assms [rule_format, of g xs] Suc.prems by simp
  with Suc.IH [of "fst (np_shuffle g xs)" "snd (np_shuffle g xs)"] show ?case by simp
qed

lemma length_concat_same:
  "\<forall>bt \<in> set batches. length bt = b \<Longrightarrow> length (concat batches) = length batches * b"
  by (induction batches) simp_all

lemma length_orderings [simp]: "length (orderings np_shuffle g xs e) = e"
  by (induction e arbitrary: g xs) simp_all

text \<open>
  One call of the sampler: it returns \<open>b\<close> indices and has reshuffled \<open>d\<close> times, where \<open>d\<close>
  is 0 or 1; the stream of indices still to come before the call (the rest of
  the ordering, then the orderings of the shuffles to come) is the batch
  followed by the stream still to come after the call.
\<close>

lemma BatchSampler_get_next_step:
  assumes perm: "\<forall>g xs. mset (fst (np_shuffle g xs)) = mset xs"
    and inv: "sampler_inv n s" and b: "0 < b" "b \<le> n"
  shows "\<exists>inds s' d. BatchSampler_get_next np_shuffle s (Some b) = Inr (inds, s')
           \<and> sampler_inv n s' \<and> length inds = b \<and> set inds \<subseteq> {0..<n}
           \<and> epochs_completed s' = epochs_completed s + d
           \<and> (\<forall>e. drop (index_in_epoch s) (indices s)
                       @ concat (orderings np_shuffle (generator s) (indices s) (d + e))
                     = inds @ drop (index_in_epoch s') (indices s')
                       @ concat (orderings np_shuffle (generator s') (indices s') e))
           \<and> (0 < d \<longrightarrow> 0 < index_in_epoch s')
           \<and> (d = 0 \<longrightarrow> index_in_epoch s \<le> index_in_epoch s')"
proof (cases "index_in_epoch s + b \<le> n")
  case True
  let ?inds = "take b (drop (index_in_epoch s) (indices s))"
  let ?s' = "s\<lparr>index_in_epoch := index_in_epoch s + b\<rparr>"
  from inv have n: "num_samples s = n" and m: "mset (indices s) = mset [0..<n]"
    by (simp_all add: sampler_inv_def)
  have len: "length (indices s) = n" and st: "set (indices s) = {0..<n}"
    using perm_range_set [OF m] by simp_all
  have gn: "BatchSampler_get_next np_shuffle s (Some b) = Inr (?inds, ?s')"
    using True b n by (simp add: BatchSampler_get_next_def Let_def)
  have "sampler_inv n ?s'" using inv True by (simp add: sampler_inv_def)
  moreover have "length ?inds = b" using True len by simp
  moreover have "set ?inds \<subseteq> {0..<n}"
    using st set_take_subset set_drop_subset by fast
  moreover have "drop (index_in_epoch s) (indices s) @ rest
                     = ?inds @ drop (index_in_epoch ?s') (indices ?s') @ rest" for rest
    using append_take_drop_id [of b "drop (index_in_epoch s) (indices s)"]
    by (simp add: add.commute)
  ultimately show ?thesis using gn
    by (intro exI [of _ ?inds] exI [of _ ?s'] exI [of _ 0] conjI) simp_all
next
  case False
  from inv have n: "num_samples s = n" and m: "mset (indices s) = mset [0..<n]"
    and c: "index_in_epoch s \<le> n" and f: "shuffle_flag s"
    by (simp_all add: sampler_inv_def)
  have len: "length (indices s) = n" and st: "set (indices s) = {0..<n}"
    using perm_range_set [OF m] by simp_all
  define new where "new = fst (np_shuffle (generator s) (indices s))"
  define g' where "g' = snd (np_shuffle (generator s) (indices s))"
  define k where "k = b - (n - index_in_epoch s)"
  have mnew: "mset new = mset [0..<n]"
    using perm [rule_format, of "generator s" "indices s"] m by (simp add: new_def)
  have lnew: "length new = n" and snew: "set new = {0..<n}"
    using perm_range_set [OF mnew] by simp_all
  let ?inds = "drop (index_in_epoch s) (indices s) @ take k new"
  let ?s' = "s\<lparr>indices := new, generator := g',
                 epochs_completed := epochs_completed s + 1, index_in_epoch := k\<rparr>"
  have gn: "BatchSampler_get_next np_shuffle s (Some b) = Inr (?inds, ?s')"
    using False b n f
    by (simp add: BatchSampler_get_next_def Let_def new_def g'_def k_def split: prod.splits)
  have kn: "k \<le> n" using b by (simp add: k_def)
  have k0: "0 < k" using False c by (simp add: k_def)
  have "sampler_inv n ?s'" using n mnew kn f by (simp add: sampler_inv_def)
  moreover have "length ?inds = b" using False len lnew c b by (simp add: k_def)
  moreover have "set ?inds \<subseteq> {0..<n}"
  proof -
    have "set (drop (index_in_epoch s) (indices s)) \<subseteq> {0..<n}"
      using st set_drop_subset by fast
    moreover have "set (take k new) \<subseteq> {0..<n}"
      using snew set_take_subset by fast
    ultimately show ?thesis by simp
  qed
  moreover have "\<forall>e. drop (index_in_epoch s) (indices s)
                       @ concat (orderings np_shuffle (generator s) (indices s) (1 + e))
                     = ?inds @ drop (index_in_epoch ?s') (indices ?s')
                       @ concat (orderings np_shuffle (generator ?s') (indices ?s') e)"
    by (simp add: new_def g'_def)
  ultimately show ?thesis using gn k0
    by (intro exI [of _ ?inds] exI [of _ ?s'] exI [of _ 1] conjI) simp_all
qed

text \<open>The same for \<open>k\<close> successive calls of the sampler.\<close>

lemma get_next_batches_stream:
  assumes perm: "\<forall>g xs. mset (fst (np_shuffle g xs)) = mset xs"
    and b: "0 < b" "b \<le> n"
    and inv: "sampler_inv n s"
  shows "\<exists>batches s' d.
      get_next_batches (BatchSampler_get_next np_shuffle) s (Some b) k = Inr (batches, s')
    \<and> sampler_inv n s' \<and> length batches = k
    \<and> (\<forall>bt \<in> set batches. length bt = b \<and> set bt \<subseteq> {0..<n})
    \<and> epochs_completed s' = epochs_completed s + d
    \<and> (\<forall>e. drop (index_in_epoch s) (indices s)
                @ concat (orderings np_shuffle (generator s) (indices s) (d + e))
              = concat batches @ drop (index_in_epoch s') (indices s')
                @ concat (orderings np_shuffle (generator s') (indices s') e))
    \<and> (0 < d \<longrightarrow> 0 < index_in_epoch s')
    \<and> (d = 0 \<longrightarrow> index_in_epoch s \<le> index_in_epoch s')"
  using inv
proof (induction k arbitrary: s)
  case 0
  then show ?case
    by (intro exI [of _ "[]"] exI [of _ s] exI [of _ 0]) simp
next
  case (Suc k)
  from BatchSampler_get_next_step [OF perm Suc.prems b]
  obtain inds s1 d1 where step:
    "BatchSampler_get_next np_shuffle s (Some b) = Inr (inds, s1)"
    "sampler_inv n s1" "length inds = b" "set inds \<subseteq> {0..<n}"
    "epochs_completed s1 = epochs_completed s + d1"
    "\<forall>e. drop (index_in_epoch s) (indices s)
             @ concat (orderings np_shuffle (generator s) (indices s) (d1 + e))
           = inds @ drop (index_in_epoch s1) (indices s1)
             @ concat (orderings np_shuffle (generator s1) (indices s1) e)"
    "0 < d1 \<longrightarrow> 0 < index_in_epoch s1"
    "d1 = 0 \<longrightarrow> index_in_epoch s \<le> index_in_epoch s1"
    by blast
  from Suc.IH [OF step(2)]
  obtain batches s' d2 where ih:
    "get_next_batches (BatchSampler_get_next np_shuffle) s1 (Some b) k = Inr (batches, s')"
    "sampler_inv n s'" "length batches = k"
    "\<forall>bt \<in> set batches. length bt = b \<and> set bt \<subseteq> {0..<n}"
    "epochs_completed s' = epochs_completed s1 + d2"
    "\<forall>e. drop (index_in_epoch s1) (indices s1)
             @ concat (orderings np_shuffle (generator s1) (indices s1) (d2 + e))
           = concat batches @ drop (index_in_epoch s') (indices s')
             @ concat (orderings np_shuffle (generator s') (indices s') e)"
    "0 < d2 \<longrightarrow> 0 < index_in_epoch s'"
    "d2 = 0 \<longrightarrow> index_in_epoch s1 \<le> index_in_epoch s'"
    by blast
  have g: "get_next_batches (BatchSampler_get_next np_shuffle) s (Some b) (Suc k)
             = Inr (inds # batches, s')"
    using step(1) ih(1) by (simp add: ebind_def)
  have c: "\<forall>e. drop (index_in_epoch s) (indices s)
             @ concat (orderings np_shuffle (generator s) (indices s) ((d1 + d2) + e))
           = concat (inds # batches) @ drop (index_in_epoch s') (indices s')
             @ concat (orderings np_shuffle (generator s') (indices s') e)"
  proof
    fix e
    have "drop (index_in_epoch s) (indices s)
             @ concat (orderings np_shuffle (generator s) (indices s) (d1 + (d2 + e)))
           = inds @ drop (index_in_epoch s1) (indices s1)
             @ concat (orderings np_shuffle (generator s1) (indices s1) (d2 + e))"
      using step(6) by blast
    also have "\<dots> = inds @ concat batches @ drop (index_in_epoch s') (indices s')
             @ concat (orderings np_shuffle (generator s') (indices s') e)"
      using ih(6) by simp
    finally show "drop (index_in_epoch s) (indices s)
             @ concat (orderings np_shuffle (generator s) (indices s) ((d1 + d2) + e))
           = concat (inds # batches) @ drop (index_in_epoch s') (indices s')
             @ concat (orderings np_shuffle (generator s') (indices s') e)"
      by (simp add: add.assoc)
  qed
  have p: "0 < d1 + d2 \<longrightarrow> 0 < index_in_epoch s'"
    using step(7) ih(7,8) by (cases "d2 = 0") auto
  have q: "d1 + d2 = 0 \<longrightarrow> index_in_epoch s \<le> index_in_epoch s'"
    using step(8) ih(8) by auto
  have e: "epochs_completed s' = epochs_completed s + (d1 + d2)"
    using step(5) ih(5) by simp
  show ?case
    using g ih(2,3,4) step(3,4) e c p q
    by (intro exI [of _ "inds # batches"] exI [of _ s'] exI [of _ "d1 + d2"]) simp
qed

text \<open>
  Successive calls of \<open>train_next_batch\<close> draw what successive calls of the
  sampler's \<open>get_next\<close> draw, leave the sampler in the same state, and return
  each batch of indices when the flag of the call is true.
\<close>

lemma draws_get_next_batches:
  assumes b: "0 < b"
    and sh: "\<forall>i<n. shape (U i) = su" "\<forall>i<n. shape (X i) = sx" "\<forall>i<n. shape (T i) = st"
  shows "\<forall>i<n. get_tensors float32 self i (patch_size self) = Inr ([U i, X i], T i, []) \<Longrightarrow>
         get_next_batches get_next (batch_sampler self) (Some b) (length flags) = Inr (batches, s') \<Longrightarrow>
         \<forall>bt \<in> set batches. bt \<noteq> [] \<and> set bt \<subseteq> {0..<n} \<Longrightarrow>
         draws get_next float32 self (Some b) flags
           = Inr (map2 (\<lambda>ri inds. if ri then Some inds else None) flags batches,
                  self\<lparr>batch_sampler := s'\<rparr>)"
proof (induction flags arbitrary: self batches)
  case Nil
  then show ?case by simp
next
  case (Cons ri flags)
  from Cons.prems(2) obtain inds s1 rest where
    gn: "get_next (batch_sampler self) (Some b) = Inr (inds, s1)"
    and gr: "get_next_batches get_next s1 (Some b) (length flags) = Inr (rest, s')"
    and bs: "batches = inds # rest"
    by (auto simp add: ebind_def split: sum.splits prod.splits)
  let ?self' = "self\<lparr>batch_sampler := s1\<rparr>"
  have gn': "get_next (batch_sampler self) (py_or (Some b) (batch_size self)) = Inr (inds, s1)"
    using gn b by (simp add: py_or_def)
  have ne: "inds \<noteq> []" and lt: "\<forall>i \<in> set inds. i < n"
    using Cons.prems(3) bs by auto
  have "\<exists>u x t. (\<forall>ri. train_next_batch get_next float32 self (Some b) ri
           = (Inr ([u, x], t, [], if ri then Some inds else None), ?self'))
         \<and> torch_stack (map U inds) = Inr u \<and> torch_stack (map X inds) = Inr x
         \<and> torch_stack (map T inds) = Inr t"
    using gn' ne lt Cons.prems(1) sh
    by (intro train_next_batch_returns [where su = su and sx = sx and st = st]) simp_all
  then obtain u x t where tnb:
    "train_next_batch get_next float32 self (Some b) ri
           = (Inr ([u, x], t, [], if ri then Some inds else None), ?self')" by blast
  have gt': "\<forall>i<n. get_tensors float32 ?self' i (patch_size ?self') = Inr ([U i, X i], T i, [])"
    using Cons.prems(1) by simp
  have gr': "get_next_batches get_next (batch_sampler ?self') (Some b) (length flags) = Inr (rest, s')"
    using gr by simp
  have rs: "\<forall>bt \<in> set rest. bt \<noteq> [] \<and> set bt \<subseteq> {0..<n}"
    using Cons.prems(3) bs by simp
  from Cons.IH [OF gt' gr' rs]
  have "draws get_next float32 ?self' (Some b) flags
           = Inr (map2 (\<lambda>ri inds. if ri then Some inds else None) flags rest,
                  self\<lparr>batch_sampler := s'\<rparr>)"
    by simp
  then show ?case using tnb bs by (simp add: ebind_def)
qed

section \<open>C5: batches are drawn without replacement from a shuffled ordering\<close>

text \<open>
  C5. Let the sampler shuffle by permuting, let the object be new, over a cohort
  of \<open>n\<close> patients whose tensors can be built and stacked, without patch size, and
  let \<open>0 < b \<le> n\<close>. Then \<open>k\<close> successive calls \<open>train_next_batch(b, return_inds)\<close>, one
  for each flag of a list, all return. They draw what \<open>k\<close> calls of the sampler
  draw: \<open>k\<close> batches of \<open>b\<close> indices each, which in order are the first \<open>k \<cdot> b\<close>
  entries of the concatenation of the orderings that successive shuffles
  produce, the first the shuffle of \<open>range(n)\<close> and each later one the shuffle of
  the one before, each a permutation of \<open>range(n)\<close>. So within an epoch no index
  is drawn twice, and an epoch that is drawn to its end has drawn every index
  once. The sampler reshuffles exactly when a call finds the ordering
  exhausted: after the calls, \<open>k \<cdot> b\<close> is \<open>n\<close> times the number of reshuffles plus
  the cursor in the current ordering, and the cursor is positive once a
  reshuffle has happened. Each call returns the indices it drew when its flag
  \<open>return_inds\<close> is true and none when it is false.
\<close>

theorem train_next_batch_exhaustive_shuffle:
  assumes perm: "\<forall>g xs. mset (fst (np_shuffle g xs)) = mset xs"
    and self: "self = PINOData_init (BatchSampler_init np_shuffle g) cohort_arg pde_arg None
                        batch_size_arg device_arg"
    and n: "n = length cohort_arg" and b: "0 < b" "b \<le> n"
    and gt: "\<forall>i<n. get_tensors float32 self i None = Inr ([U i, X i], T i, [])"
    and sh: "\<forall>i<n. shape (U i) = su" "\<forall>i<n. shape (X i) = sx" "\<forall>i<n. shape (T i) = st"
    and k: "length flags = k"
  shows "\<exists>batches s'.
            get_next_batches (BatchSampler_get_next np_shuffle) (batch_sampler self) (Some b) k
              = Inr (batches, s')
          \<and> draws (BatchSampler_get_next np_shuffle) float32 self (Some b) flags
              = Inr (map2 (\<lambda>return_inds inds. if return_inds then Some inds else None) flags batches,
                     self\<lparr>batch_sampler := s'\<rparr>)
          \<and> length batches = k \<and> (\<forall>bt \<in> set batches. length bt = b)
          \<and> concat batches
              = take (k * b) (concat (orderings np_shuffle g [0..<n] (Suc (epochs_completed s'))))
          \<and> (\<forall>p \<in> set (orderings np_shuffle g [0..<n] (Suc (epochs_completed s'))).
                mset p = mset [0..<n])
          \<and> k * b = epochs_completed s' * n + index_in_epoch s'
          \<and> index_in_epoch s' \<le> n
          \<and> (0 < epochs_completed s' \<longrightarrow> 0 < index_in_epoch s')
          \<and> (k * b \<le> n \<longrightarrow> distinct (concat batches))
          \<and> (k * b = n \<longrightarrow> mset (concat batches) = mset [0..<n])"
proof -
  let ?s = "batch_sampler self"
  have s0: "?s = BatchSampler_init np_shuffle g n True"
    by (simp add: self n PINOData_init_def)
  have ps: "patch_size self = None" by (simp add: self PINOData_init_def)
  have inv: "sampler_inv n ?s"
    unfolding s0 by (rule BatchSampler_init_inv(1) [OF perm])
  have c0: "index_in_epoch ?s = 0" and e0: "epochs_completed ?s = 0"
    and i0: "indices ?s = fst (np_shuffle g [0..<n])"
    and g0: "generator ?s = snd (np_shuffle g [0..<n])"
    unfolding s0 by (rule BatchSampler_init_inv [OF perm])+
  have gt': "\<forall>i<n. get_tensors float32 self i (patch_size self) = Inr ([U i, X i], T i, [])"
    using gt ps by simp
  from get_next_batches_stream [OF perm b inv, of k]
  obtain batches s' d where gs:
    "get_next_batches (BatchSampler_get_next np_shuffle) ?s (Some b) k = Inr (batches, s')"
    "sampler_inv n s'" "length batches = k"
    "\<forall>bt \<in> set batches. length bt = b \<and> set bt \<subseteq> {0..<n}"
    "epochs_completed s' = epochs_completed ?s + d"
    "\<forall>e. drop (index_in_epoch ?s) (indices ?s)
                @ concat (orderings np_shuffle (generator ?s) (indices ?s) (d + e))
              = concat batches @ drop (index_in_epoch s') (indices s')
                @ concat (orderings np_shuffle (generator s') (indices s') e)"
    "0 < d \<longrightarrow> 0 < index_in_epoch s'"
    by blast
  let ?ords = "orderings np_shuffle g [0..<n] (Suc (epochs_completed s'))"
  have ec: "epochs_completed s' = d" using gs(5) e0 by simp
  have lb: "\<forall>bt \<in> set batches. length bt = b" using gs(4) by simp
  have ne: "\<forall>bt \<in> set batches. bt \<noteq> [] \<and> set bt \<subseteq> {0..<n}"
    using gs(4) b(1) by auto
  have dr: "draws (BatchSampler_get_next np_shuffle) float32 self (Some b) flags
              = Inr (map2 (\<lambda>return_inds inds. if return_inds then Some inds else None) flags batches,
                     self\<lparr>batch_sampler := s'\<rparr>)"
    using draws_get_next_batches [OF b(1) sh gt' _ ne, of "BatchSampler_get_next np_shuffle" flags s']
      gs(1) k by simp
  have perms: "\<forall>p \<in> set ?ords. mset p = mset [0..<n]"
    by (rule orderings_perms [OF perm]) simp
  have lens: "length (concat ?ords) = Suc d * n"
  proof -
    have "\<forall>p \<in> set ?ords. length p = n"
      using perms perm_range_set(2) by blast
    from length_concat_same [OF this] show ?thesis by (simp add: ec)
  qed
  have stream: "concat ?ords = concat batches @ drop (index_in_epoch s') (indices s')"
    using gs(6) [rule_format, of 0] by (simp add: c0 i0 g0 ec)
  have lc: "length (concat batches) = k * b"
    using length_concat_same [OF lb] gs(3) by simp
  have cb: "concat batches = take (k * b) (concat ?ords)"
    using stream lc by simp
  have m': "mset (indices s') = mset [0..<n]" and c': "index_in_epoch s' \<le> n"
    using gs(2) by (simp_all add: sampler_inv_def)
  have l': "length (indices s') = n" using perm_range_set(2) [OF m'] .
  have "length (concat ?ords) = k * b + (n - index_in_epoch s')"
    using stream lc l' by simp
  with lens c' have count: "k * b = d * n + index_in_epoch s'" by simp
  have first: "k * b \<le> n \<longrightarrow> concat batches = take (k * b) (fst (np_shuffle g [0..<n]))"
  proof
    assume le: "k * b \<le> n"
    have "d = 0"
    proof (rule ccontr)
      assume "d \<noteq> 0"
      then have "0 < index_in_epoch s'" and "n \<le> d * n" using gs(7) by simp_all
      with count le show False by simp
    qed
    then have "concat ?ords = fst (np_shuffle g [0..<n])" by (simp add: ec)
    with cb show "concat batches = take (k * b) (fst (np_shuffle g [0..<n]))" by simp
  qed
  have m1: "mset (fst (np_shuffle g [0..<n])) = mset [0..<n]"
    using perm by simp
  have dist: "k * b \<le> n \<longrightarrow> distinct (concat batches)"
    using first perm_range_set(3) [OF m1] by simp
  have full: "k * b = n \<longrightarrow> mset (concat batches) = mset [0..<n]"
    using first perm_range_set(2) [OF m1] m1 by simp
  show ?thesis
    using gs(1,3) dr lb cb perms count c' gs(7) dist full
    by (intro exI [of _ batches] exI [of _ s']) (simp add: ec)
qed

text \<open>The example cohort: every patient's tensors can be built, and all have the same shapes.\<close>

lemma ex_cohort_nth:
  assumes "i < 3"
  shows "ex_cohort ! i = ex_patient (10 * real i)"
proof -
  from assms have "i = 0 \<or> i = 1 \<or> i = 2" by auto
  then show ?thesis by (auto simp add: ex_cohort_def)
qed

lemma ex_get_tensors:
  assumes "i < 3"
  shows "\<exists>t. get_tensors ex_float32 ex_data i None =
            Inr ([torch_tensor (expand_last (ex_array (10 * real i + 16777214))) ''cuda'' ex_float32,
                  torch_tensor (np_scale ex_points (1 / 1000)) ''cuda'' ex_float32], t, [])
         \<and> shape t = [2, 2, 1, 3]"
proof -
  have c: "cohort ex_data ! i = ex_patient (10 * real i)" "i < length (cohort ex_data)"
    using assms ex_cohort_nth by (simp_all add: ex_data_fields ex_cohort_def)
  show ?thesis
    using get_tensors_None [where self = ex_data and idx = i and s = "[2, 2, 1]"
        and ?float32.0 = ex_float32
        and ?a1.0 = "ex_data_array (10 * real i + 1)" and ?a2.0 = "ex_data_array (10 * real i + 2)"
        and ?a3.0 = "ex_data_array (10 * real i + 3)" and ?a4.0 = "ex_data_array (10 * real i + 4)"
        and wave = "ex_data_array (10 * real i + 16777214)" and mre = "ex_data_array (10 * real i + 6)"
        and mre_mask = "ex_data_array (10 * real i + 7)"] c ex_patient_arrays [of "10 * real i"]
    by (auto simp add: ex_data_array_def ex_array_def ex_data_fields)
qed

lemma ex_get_tensors_fun:
  "\<exists>T. \<forall>i<3. get_tensors ex_float32 ex_data i None =
            Inr ([torch_tensor (expand_last (ex_array (10 * real i + 16777214))) ''cuda'' ex_float32,
                  torch_tensor (np_scale ex_points (1 / 1000)) ''cuda'' ex_float32], T i, [])
         \<and> shape (T i) = [2, 2, 1, 3]"
proof -
  have "\<forall>i. \<exists>t. i < 3 \<longrightarrow> (get_tensors ex_float32 ex_data i None =
            Inr ([torch_tensor (expand_last (ex_array (10 * real i + 16777214))) ''cuda'' ex_float32,
                  torch_tensor (np_scale ex_points (1 / 1000)) ''cuda'' ex_float32], t, [])
         \<and> shape t = [2, 2, 1, 3])"
    using ex_get_tensors by blast
  then have "\<exists>T. \<forall>i. i < 3 \<longrightarrow> (get_tensors ex_float32 ex_data i None =
            Inr ([torch_tensor (expand_last (ex_array (10 * real i + 16777214))) ''cuda'' ex_float32,
                  torch_tensor (np_scale ex_points (1 / 1000)) ''cuda'' ex_float32], T i, [])
         \<and> shape (T i) = [2, 2, 1, 3])"
    by (rule choice)
  then show ?thesis by blast
qed

lemma mset_rotate: "mset (rotate k xs) = mset xs"
proof -
  have "mset (drop j xs @ take j xs) = mset (take j xs @ drop j xs)" for j
    by (simp only: mset_append add.commute)
  then show ?thesis by (simp add: rotate_drop_take)
qed

lemma ex_shuffle_perm: "\<forall>g xs. mset (fst (ex_shuffle g xs)) = mset xs"
  by (simp add: ex_shuffle_def mset_rotate)

text \<open>
  Three calls of the example sampler with batch size 2 on three patients: the
  first ordering is \<open>[1, 2, 0]\<close>, the second call takes its last entry and
  reshuffles, the second ordering is \<open>[0, 1, 2]\<close>.
\<close>

lemma ex_sampler_init:
  "batch_sampler ex_data
     = \<lparr>num_samples = 3, shuffle_flag = True, indices = [1, 2, 0], epochs_completed = 0,
        index_in_epoch = 0, generator = 2\<rparr>"
proof -
  have "[0..<3] = [0, 1, 2]" by (simp add: upt_rec)
  then show ?thesis
    by (simp add: ex_data_def PINOData_init_def BatchSampler_init_def ex_cohort_def ex_shuffle_def
        rotate_drop_take)
qed

lemma ex_sampler_batches:
  "get_next_batches (BatchSampler_get_next ex_shuffle) (batch_sampler ex_data) (Some 2) 3
     = Inr ([[1, 2], [0, 0], [1, 2]],
            \<lparr>num_samples = 3, shuffle_flag = True, indices = [0, 1, 2], epochs_completed = 1,
             index_in_epoch = 3, generator = 3\<rparr>)"
proof -
  have "get_next_batches (BatchSampler_get_next ex_shuffle) (batch_sampler ex_data) (Some 2)
          (Suc (Suc (Suc 0)))
     = Inr ([[1, 2], [0, 0], [1, 2]],
            \<lparr>num_samples = 3, shuffle_flag = True, indices = [0, 1, 2], epochs_completed = 1,
             index_in_epoch = 3, generator = 3\<rparr>)"
    by (simp add: ex_sampler_init BatchSampler_get_next_def ebind_def Let_def ex_shuffle_def
        rotate_drop_take)
  then show ?thesis by (simp add: eval_nat_numeral)
qed

theorem train_next_batch_exhaustive_shuffle_witness:
  "\<exists>s'. get_next_batches (BatchSampler_get_next ex_shuffle) (batch_sampler ex_data) (Some 2) 3
            = Inr ([[1, 2], [0, 0], [1, 2]], s')
       \<and> draws (BatchSampler_get_next ex_shuffle) ex_float32 ex_data (Some 2) [True, False, True]
            = Inr ([Some [1, 2], None, Some [1, 2]], ex_data\<lparr>batch_sampler := s'\<rparr>)
       \<and> epochs_completed s' = 1 \<and> index_in_epoch s' = 3
       \<and> concat [[1, 2], [0, 0], [1, 2]]
            = take 6 (concat (orderings ex_shuffle 1 [0..<3] 2))"
proof -
  obtain T where T: "\<forall>i<3. get_tensors ex_float32 ex_data i None =
            Inr ([torch_tensor (expand_last (ex_array (10 * real i + 16777214))) ''cuda'' ex_float32,
                  torch_tensor (np_scale ex_points (1 / 1000)) ''cuda'' ex_float32], T i, [])
         \<and> shape (T i) = [2, 2, 1, 3]"
    using ex_get_tensors_fun by blast
  have gt: "\<forall>i<3. get_tensors ex_float32 ex_data i None =
            Inr ([torch_tensor (expand_last (ex_array (10 * real i + 16777214))) ''cuda'' ex_float32,
                  torch_tensor (np_scale ex_points (1 / 1000)) ''cuda'' ex_float32], T i, [])"
    and st: "\<forall>i<3. shape (T i) = [2, 2, 1, 3]"
    using T by simp_all
  have su: "\<forall>i<3. shape (torch_tensor (expand_last (ex_array (10 * real i + 16777214))) ''cuda'' ex_float32)
             = [2, 2, 1, 1]"
    by (simp add: torch_tensor_def expand_last_def ex_array_def)
  have sx: "\<forall>i<(3::nat). shape (torch_tensor (np_scale ex_points (1 / 1000)) ''cuda'' ex_float32)
             = [2, 2, 1, 3]"
    by (simp add: torch_tensor_def np_scale_def ex_points_def)
  have n: "3 = length ex_cohort" by (simp add: ex_cohort_def)
  have fl: "length [True, False, True] = 3" by simp
  note inst = train_next_batch_exhaustive_shuffle [where np_shuffle = ex_shuffle and g = 1
      and cohort_arg = ex_cohort and pde_arg = ex_pde and batch_size_arg = None
      and device_arg = None and self = ex_data and n = 3 and b = 2 and k = 3
      and ?float32.0 = ex_float32 and flags = "[True, False, True]"
      and U = "\<lambda>i. torch_tensor (expand_last (ex_array (10 * real i + 16777214))) ''cuda'' ex_float32"
      and X = "\<lambda>i. torch_tensor (np_scale ex_points (1 / 1000)) ''cuda'' ex_float32"
      and T = T, OF ex_shuffle_perm ex_data_def n _ _ gt su sx st fl]
  from inst obtain batches s' where r:
    "get_next_batches (BatchSampler_get_next ex_shuffle) (batch_sampler ex_data) (Some 2) 3
       = Inr (batches, s')"
    "draws (BatchSampler_get_next ex_shuffle) ex_float32 ex_data (Some 2) [True, False, True]
       = Inr (map2 (\<lambda>return_inds inds. if return_inds then Some inds else None)
                [True, False, True] batches, ex_data\<lparr>batch_sampler := s'\<rparr>)"
    "concat batches
       = take (3 * 2) (concat (orderings ex_shuffle 1 [0..<3] (Suc (epochs_completed s'))))"
    by auto
  from r(1) have bs: "batches = [[1, 2], [0, 0], [1, 2]]"
    and s': "epochs_completed s' = 1" "index_in_epoch s' = 3"
    by (auto simp add: ex_sampler_batches)
  have two: "Suc (Suc 0) = 2" by simp
  show ?thesis
    using r bs s' by (intro exI [of _ s']) (simp add: two)
qed

section \<open>C6: the baseline modulus of \<open>PINOModel.test\<close>\<close>

lemma train_next_batch_pde:
  "pde (snd (train_next_batch get_next float32 self b r)) = pde self"
  by (simp add: train_next_batch_def Let_def split: sum.splits prod.splits)

text \<open>
  With the class \<open>WaveEquation\<close> as the PDE object, \<open>PINOModel.test\<close> returns on no
  cohort, whatever the sampler, the network, the Hessian primitive and the
  statements after \<open>predict\<close> do.
\<close>

lemma PINOModel_test_WaveEquation_raises:
  assumes "pde (data self) = WaveEquation_object hessian' w"
  shows "fst (PINOModel_test get_next float32 hessian rest self) \<noteq> Inr r"
proof (cases "PINOData_test get_next float32 (data self) True")
  case (Pair res data')
  have p: "pde data' = WaveEquation_object hessian' w"
    using train_next_batch_pde [of get_next float32 "data self" "Some 1" True] Pair assms
    by (simp add: PINOData_test_def)
  show ?thesis
  proof (cases res)
    case (Inl e)
    with Pair show ?thesis by (simp add: PINOModel_test_def)
  next
    case (Inr batch)
    obtain inputs targets aux_vars inds where batch: "batch = (inputs, targets, aux_vars, inds)"
      by (cases batch) auto
    have "predict hessian (self\<lparr>data := data'\<rparr>) a x \<noteq> Inr q" for a x q
      by (rule predict_WaveEquation_raises [where hessian' = hessian' and w = w]) (simp add: p)
    then show ?thesis
      using Pair Inr batch
      by (auto simp add: PINOModel_test_def Let_def ebind_def split: list.splits sum.splits)
  qed
qed

text \<open>
  C6. The claim is that \<open>PINOModel.test\<close> computes the baseline modulus as the
  pointwise quotient of \<open>-1000 (2 \<pi> 80)\<^sup>2\<close> times the predicted displacement by its
  Laplacian. The code does not, with the PDE class of the repository: on the
  example model, whose PDE is a \<open>WaveEquation\<close>, over the example cohort of three
  patients, the data object returns a test batch, and \<open>predict\<close>, called on its
  inputs, raises AttributeError for the method \<open>traction_and_body_forces\<close> that
  \<open>WaveEquation\<close> does not have. The statement that forms the quotient comes
  after the call of \<open>predict\<close> and is not reached, whatever it and the statements
  after it do.
\<close>

theorem PINOModel_test_raises_before_baseline:
  "fst (PINOModel_test (BatchSampler_get_next ex_shuffle) ex_float32 ex_hessian rest ex_model)
     = Inl (AttributeError ''traction_and_body_forces'')"
proof -
  let ?s1 = "\<lparr>num_samples = 3, shuffle_flag = True, indices = [1, 2, 0], epochs_completed = 0,
              index_in_epoch = 1, generator = 2 :: nat\<rparr>"
  let ?U = "\<lambda>i. torch_tensor (expand_last (ex_array (10 * real i + 16777214))) ''cuda'' ex_float32"
  let ?X = "\<lambda>i :: nat. torch_tensor (np_scale ex_points (1 / 1000)) ''cuda'' ex_float32"
  obtain T where T: "\<forall>i<3. get_tensors ex_float32 ex_data i None = Inr ([?U i, ?X i], T i, [])
         \<and> shape (T i) = [2, 2, 1, 3]"
    using ex_get_tensors_fun by blast
  have gn: "BatchSampler_get_next ex_shuffle (batch_sampler ex_data) (py_or (Some 1) (batch_size ex_data))
              = Inr ([1], ?s1)"
    by (simp add: ex_sampler_init py_or_def BatchSampler_get_next_def Let_def)
  have "\<exists>u x t. (\<forall>ri. train_next_batch (BatchSampler_get_next ex_shuffle) ex_float32 ex_data (Some 1) ri
           = (Inr ([u, x], t, [], if ri then Some [1] else None), ex_data\<lparr>batch_sampler := ?s1\<rparr>))
         \<and> torch_stack (map ?U [1]) = Inr u \<and> torch_stack (map ?X [1]) = Inr x
         \<and> torch_stack (map T [1]) = Inr t"
    using gn T
    by (intro train_next_batch_returns [where su = "[2, 2, 1, 1]" and sx = "[2, 2, 1, 3]"
          and st = "[2, 2, 1, 3]"])
       (simp_all add: ex_data_fields torch_tensor_def expand_last_def np_scale_def ex_array_def
          ex_points_def)
  then obtain u x t where b:
    "train_next_batch (BatchSampler_get_next ex_shuffle) ex_float32 ex_data (Some 1) True
           = (Inr ([u, x], t, [], Some [1]), ex_data\<lparr>batch_sampler := ?s1\<rparr>)"
    "torch_stack (map ?X [1]) = Inr x"
    by auto
  have sx: "shape x = [1, 2, 2, 1, 3]"
    using b(2) by (auto simp add: torch_stack_def torch_tensor_def np_scale_def ex_points_def)
  let ?x = "x\<lparr>requires_grad := True\<rparr>"
  let ?self = "ex_model\<lparr>data := ex_data\<lparr>batch_sampler := ?s1\<rparr>\<rparr>"
  have "\<exists>lu. laplacian ex_hessian (ex_prediction ?x 5) ?x 0 = Inr lu"
    by (rule ex_laplacian_returns) (simp_all add: sx)
  then obtain lu where lu: "laplacian ex_hessian (ex_prediction ?x 5) ?x 0 = Inr lu" by blast
  have f: "forward (net ?self) [u, ?x] True = Inr [ex_prediction ?x 5, ex_prediction ?x 7]"
    by (simp add: ex_model_fields ex_net_def)
  have p: "pde (data ?self) = WaveEquation_object ex_hessian (WaveEquation_init True None None)"
    by (simp add: ex_data_fields ex_pde_def)
  have "predict ex_hessian ?self u x = Inl (AttributeError ''traction_and_body_forces'')"
    using predict_WaveEquation_AttributeError [OF p f lu] .
  then show ?thesis
    using b(1) by (simp add: PINOModel_test_def PINOData_test_def ex_model_fields ebind_def)
qed

end
